theory Spec2Isabelle
  imports
    Complex_Main
    "HOL-Library.Word"
    "HOL-Library.Char_ord"
    "HOL-Library.List_Lexorder"
begin

unbundle bit_operations_syntax

chapter \<open>Video monitoring system: capture, recording pipeline and storage retention\<close>

section \<open>Capture layer (v4l2\_wrapper.c)\<close>

subsection \<open>Pixel conversion: rgb565\_to\_rgb888\<close>

text \<open>
  C types: \<^verbatim>\<open>unsigned short\<close> is a 16-bit word, \<^verbatim>\<open>unsigned char\<close> an 8-bit word.
  Every operand of \<^verbatim>\<open>>>\<close>, \<^verbatim>\<open><<\<close>, \<^verbatim>\<open>&\<close> and \<^verbatim>\<open>|\<close> is promoted to \<^verbatim>\<open>int\<close>
  (32 bits) before the operation, and the result is truncated when it is stored into an
  \<^verbatim>\<open>unsigned char\<close>.  All intermediate values are non-negative, so a 32-bit word
  models the promoted \<^verbatim>\<open>int\<close>.
\<close>

type_synonym u8 = "8 word"
type_synonym u16 = "16 word"
type_synonym c_int = "32 word"

text \<open>\<^verbatim>\<open>r = (rgb565_pixel >> 11) & 0x1F; g = (rgb565_pixel >> 5) & 0x3F; b = rgb565_pixel & 0x1F;\<close>\<close>

definition chan_r :: "u16 \<Rightarrow> u8" where
  "chan_r rgb565_pixel = ucast (drop_bit 11 (ucast rgb565_pixel :: c_int) AND 0x1F)"

definition chan_g :: "u16 \<Rightarrow> u8" where
  "chan_g rgb565_pixel = ucast (drop_bit 5 (ucast rgb565_pixel :: c_int) AND 0x3F)"

definition chan_b :: "u16 \<Rightarrow> u8" where
  "chan_b rgb565_pixel = ucast ((ucast rgb565_pixel :: c_int) AND 0x1F)"

text \<open>\<^verbatim>\<open>(r << 3) | (r >> 2)\<close> and \<^verbatim>\<open>(g << 2) | (g >> 4)\<close>, stored into a byte.\<close>

definition expand5 :: "u8 \<Rightarrow> u8" where
  "expand5 c = ucast (push_bit 3 (ucast c :: c_int) OR drop_bit 2 (ucast c :: c_int))"

definition expand6 :: "u8 \<Rightarrow> u8" where
  "expand6 c = ucast (push_bit 2 (ucast c :: c_int) OR drop_bit 4 (ucast c :: c_int))"

text \<open>
  The \<^verbatim>\<open>for (i = 0; i < pixels; i++)\<close> loop.  \<open>src\<close> and \<open>dst\<close> are the two caller-owned
  buffers; the loop writes \<open>dst[i*3 + 0]\<close>, \<open>dst[i*3 + 1]\<close>, \<open>dst[i*3 + 2]\<close> in place.
  Reading \<open>src\<close> or writing \<open>dst\<close> out of range is undefined behaviour in C, so the
  theorems below assume both buffers are large enough, as the caller must ensure.
\<close>

function rgb565_loop :: "int \<Rightarrow> int \<Rightarrow> u16 list \<Rightarrow> u8 list \<Rightarrow> u8 list" where
  "rgb565_loop i pixels src dst =
     (if i < pixels then
        (let rgb565_pixel = src ! nat i;
             r = chan_r rgb565_pixel;
             g = chan_g rgb565_pixel;
             b = chan_b rgb565_pixel
         in rgb565_loop (i + 1) pixels src
              (dst[nat (i * 3 + 0) := expand5 r,
                   nat (i * 3 + 1) := expand6 g,
                   nat (i * 3 + 2) := expand5 b]))
      else dst)"
  by pat_completeness auto
termination
  by (relation "measure (\<lambda>(i, pixels, src, dst). nat (pixels - i))") auto

declare rgb565_loop.simps [simp del]

definition rgb565_to_rgb888 :: "u16 list \<Rightarrow> u8 list \<Rightarrow> int \<Rightarrow> u8 list" where
  "rgb565_to_rgb888 src dst pixels = rgb565_loop 0 pixels src dst"

text \<open>The three bytes one loop iteration stores for a pixel.\<close>

definition rgb888_of_pixel :: "u16 \<Rightarrow> u8 list" where
  "rgb888_of_pixel p = [expand5 (chan_r p), expand6 (chan_g p), expand5 (chan_b p)]"

text \<open>
  The formula of the specification, on the numeric value of a pixel:
  \<open>R = (r << 3) | (r >> 2)\<close> with \<open>r = (p >> 11) & 0x1F\<close>,
  \<open>G = (g << 2) | (g >> 4)\<close> with \<open>g = (p >> 5) & 0x3F\<close>,
  \<open>B = (b << 3) | (b >> 2)\<close> with \<open>b = p & 0x1F\<close>.
\<close>

definition spec_rgb888 :: "nat \<Rightarrow> nat list" where
  "spec_rgb888 p =
     (let r = drop_bit 11 p AND 0x1F;
          g = drop_bit 5 p AND 0x3F;
          b = p AND 0x1F
      in [push_bit 3 r OR drop_bit 2 r, push_bit 2 g OR drop_bit 4 g, push_bit 3 b OR drop_bit 2 b])"

subsection \<open>Buffer allocation: v4l2\_init\_buffer\<close>

text \<open>
  A pointer stored in \<^verbatim>\<open>buf_infos[i].start\<close>: \<^verbatim>\<open>NULL\<close> (the static initial value),
  \<^verbatim>\<open>MAP_FAILED\<close>, or the address \<^verbatim>\<open>mmap\<close> returned.
\<close>

datatype map_ptr = NullPtr | MapFailed | Addr nat

record cam_buf_info =
  start :: map_ptr
  buf_length :: nat

text \<open>
  The file-scope variables of the wrapper, and \<open>mapped\<close>: the regions (address, length)
  that \<^verbatim>\<open>mmap\<close> has established in the process and \<^verbatim>\<open>munmap\<close> has not yet released.
\<close>

record v4l2_state =
  v4l2_fd :: int
  buf_infos :: "cam_buf_info list"
  frm_width :: int
  frm_height :: int
  is_capturing :: bool
  mapped :: "(nat \<times> nat) list"

text \<open>
  What the driver answers: \<^verbatim>\<open>VIDIOC_REQBUFS\<close> fails (\<open>None\<close>) or grants a number of
  buffers; \<^verbatim>\<open>VIDIOC_QUERYBUF\<close> for an index fails or gives (length, offset); \<^verbatim>\<open>mmap\<close> of
  the buffer with that index fails or gives an address.
\<close>

record driver =
  reqbufs :: "nat option"
  querybuf :: "nat \<Rightarrow> (nat \<times> nat) option"
  mmap_result :: "nat \<Rightarrow> nat option"

definition FRAMEBUFFER_COUNT :: nat where
  "FRAMEBUFFER_COUNT = 3"

definition initial_v4l2 :: v4l2_state where
  "initial_v4l2 =
     \<lparr>v4l2_fd = - 1,
      buf_infos = replicate FRAMEBUFFER_COUNT \<lparr>start = NullPtr, buf_length = 0\<rparr>,
      frm_width = 0, frm_height = 0, is_capturing = False, mapped = []\<rparr>"

definition set_length :: "nat \<Rightarrow> nat \<Rightarrow> v4l2_state \<Rightarrow> v4l2_state" where
  "set_length i len st = st\<lparr>buf_infos := (buf_infos st)[i := (buf_infos st ! i)\<lparr>buf_length := len\<rparr>]\<rparr>"

definition set_start :: "nat \<Rightarrow> map_ptr \<Rightarrow> v4l2_state \<Rightarrow> v4l2_state" where
  "set_start i p st = st\<lparr>buf_infos := (buf_infos st)[i := (buf_infos st ! i)\<lparr>start := p\<rparr>]\<rparr>"

text \<open>
  The loop \<^verbatim>\<open>for (i = 0; i < FRAMEBUFFER_COUNT; i++)\<close>: query, record the length, map,
  and return -1 at the first failure.  The two failure branches carry the comment
  \<^verbatim>\<open>TODO\<close> (add cleanup, munmap the buffers already mapped) and release nothing.
\<close>

function init_buffer_loop :: "driver \<Rightarrow> nat \<Rightarrow> v4l2_state \<Rightarrow> int \<times> v4l2_state" where
  "init_buffer_loop drv i st =
     (if i < FRAMEBUFFER_COUNT then
        (case querybuf drv i of
           None \<Rightarrow> (- 1, st)
         | Some (len, offset) \<Rightarrow>
             (let st1 = set_length i len st
              in case mmap_result drv i of
                   None \<Rightarrow> (- 1, set_start i MapFailed st1)
                 | Some a \<Rightarrow>
                     init_buffer_loop drv (i + 1)
                       ((set_start i (Addr a) st1)\<lparr>mapped := mapped st1 @ [(a, len)]\<rparr>)))
      else (0, st))"
  by pat_completeness auto
termination
  by (relation "measure (\<lambda>(drv, i, st). FRAMEBUFFER_COUNT - i)") auto

declare init_buffer_loop.simps [simp del]

text \<open>
  \<^verbatim>\<open>v4l2_init_buffer\<close>: a failing request returns -1; a granted count below
  \<^verbatim>\<open>FRAMEBUFFER_COUNT\<close> only prints a warning, and the loop still runs over
  \<^verbatim>\<open>FRAMEBUFFER_COUNT\<close> buffers.
\<close>

definition v4l2_init_buffer :: "driver \<Rightarrow> v4l2_state \<Rightarrow> int \<times> v4l2_state" where
  "v4l2_init_buffer drv st =
     (case reqbufs drv of
        None \<Rightarrow> (- 1, st)
      | Some count \<Rightarrow> init_buffer_loop drv 0 st)"

text \<open>
  The end of \<^verbatim>\<open>v4l2_init\<close>, once the device is open (descriptor \<open>fd\<close>) and the format is
  set: when \<^verbatim>\<open>v4l2_init_buffer\<close> fails, the descriptor is closed and reset to -1.
\<close>

definition v4l2_init_buffers_or_close :: "driver \<Rightarrow> int \<Rightarrow> v4l2_state \<Rightarrow> int \<times> v4l2_state" where
  "v4l2_init_buffers_or_close drv fd st =
     (case v4l2_init_buffer drv (st\<lparr>v4l2_fd := fd\<rparr>) of
        (ret, st') \<Rightarrow> if ret < 0 then (- 1, st'\<lparr>v4l2_fd := - 1\<rparr>) else (0, st'))"

text \<open>
  \<^verbatim>\<open>v4l2_cleanup\<close>: stop the stream, then, only if the descriptor is open, unmap every
  buffer whose start is neither \<^verbatim>\<open>NULL\<close> nor \<^verbatim>\<open>MAP_FAILED\<close>; close the descriptor.
\<close>

fun unmap_buffer :: "nat \<Rightarrow> v4l2_state \<Rightarrow> v4l2_state" where
  "unmap_buffer i st =
     (case start (buf_infos st ! i) of
        Addr a \<Rightarrow>
          st\<lparr>mapped := filter (\<lambda>r. r \<noteq> (a, buf_length (buf_infos st ! i))) (mapped st),
             buf_infos := (buf_infos st)[i := \<lparr>start = NullPtr, buf_length = 0\<rparr>]\<rparr>
      | _ \<Rightarrow> st)"

definition v4l2_cleanup :: "v4l2_state \<Rightarrow> v4l2_state" where
  "v4l2_cleanup st =
     (let st1 = (if v4l2_fd st < 0 then st else st\<lparr>is_capturing := False\<rparr>);
          st2 = (if v4l2_fd st1 \<ge> 0 then fold unmap_buffer [0..<FRAMEBUFFER_COUNT] st1 else st1);
          st3 = (if v4l2_fd st2 \<ge> 0 then st2\<lparr>v4l2_fd := - 1\<rparr> else st2)
      in st3\<lparr>is_capturing := False, frm_width := 0, frm_height := 0\<rparr>)"

section \<open>Storage retention manager (storagemanager.cpp)\<close>

subsection \<open>Double-precision arithmetic\<close>

text \<open>
  \<^verbatim>\<open>checkStorageSpace\<close> computes the free percentage in \<^verbatim>\<open>double\<close>.  A finite double is
  modelled by a mantissa \<open>m\<close> and an exponent \<open>e\<close>, standing for the number \<open>m * 2^e\<close>.
  Every operation rounds its exact result to the nearest number with a 53-bit mantissa,
  ties to the even mantissa (IEEE 754 binary64, the default rounding mode).  Overflow,
  subnormal numbers, infinities and NaN are not modelled: the values that occur here
  (64-bit byte counts, their quotient, and that quotient times 100) stay far inside the
  normal range.
\<close>

datatype double = Double int int

fun bit_length :: "nat \<Rightarrow> nat" where
  "bit_length n = (if n = 0 then 0 else Suc (bit_length (n div 2)))"

declare bit_length.simps [simp del]

text \<open>
  \<open>round_nearest_even n d\<close> is the double nearest to the fraction \<open>n / d\<close>, for \<open>d > 0\<close>:
  \<open>e\<close> is the binary exponent of \<open>|n| / d\<close>, the fraction is scaled by \<open>2^(52 - e)\<close> into
  \<open>[2^52, 2^53)\<close> and rounded there to an integer.
\<close>

definition round_nearest_even :: "int \<Rightarrow> int \<Rightarrow> double" where
  "round_nearest_even n d =
     (if n = 0 then Double 0 0
      else
        let a = \<bar>n\<bar>;
            k = int (bit_length (nat a)) - int (bit_length (nat d));
            e = (if (if 0 \<le> k then d * 2 ^ nat k \<le> a else d \<le> a * 2 ^ nat (- k))
                 then k else k - 1);
            s = 52 - e;
            num = (if 0 \<le> s then a * 2 ^ nat s else a);
            den = (if 0 \<le> s then d else d * 2 ^ nat (- s));
            q = num div den;
            r = num mod den;
            m = (if den < 2 * r \<or> (2 * r = den \<and> odd q) then q + 1 else q)
        in Double (sgn n * m) (- s))"

text \<open>Conversion of a 64-bit integer (\<^verbatim>\<open>static_cast<double>\<close>, and the implicit conversions).\<close>

definition double_of_int :: "int \<Rightarrow> double" where
  "double_of_int i = round_nearest_even i 1"

fun scale_double :: "double \<Rightarrow> int \<Rightarrow> double" where
  "scale_double (Double m e) k = Double m (e + k)"

text \<open>Division by a non-zero double, and multiplication.\<close>

fun double_div :: "double \<Rightarrow> double \<Rightarrow> double" where
  "double_div (Double m1 e1) (Double m2 e2) =
     scale_double (round_nearest_even (m1 * sgn m2) \<bar>m2\<bar>) (e1 - e2)"

fun double_mul :: "double \<Rightarrow> double \<Rightarrow> double" where
  "double_mul (Double m1 e1) (Double m2 e2) =
     scale_double (round_nearest_even (m1 * m2) 1) (e1 + e2)"

fun double_less :: "double \<Rightarrow> double \<Rightarrow> bool" where
  "double_less (Double m1 e1) (Double m2 e2) =
     (let e = min e1 e2 in m1 * 2 ^ nat (e1 - e) < m2 * 2 ^ nat (e2 - e))"

subsection \<open>State, environment and signals\<close>

text \<open>What \<^verbatim>\<open>QStorageInfo\<close> reports for the storage path at the time of a call.\<close>

record storage_info =
  isValid :: bool
  isReady :: bool
  bytesAvailable :: int
  bytesTotal :: int

text \<open>The reason carried by the \<^verbatim>\<open>cleanupFailed\<close> signal (its message text in the source).\<close>

datatype cleanup_failure =
    NoDateDirectory
  | DirectoryGone string
  | RemoveFailed string

datatype sm_signal =
    LowStorageSpace int int double
  | CleanupCompleted string int
  | CleanupFailed cleanup_failure

text \<open>
  The object: the configured path, the threshold, the state of \<^verbatim>\<open>m_checkTimer\<close>, and the
  signals emitted so far, oldest first.
\<close>

record storage_manager =
  m_storagePath :: string
  m_minFreeSpacePercent :: int
  timer_active :: bool
  timer_interval :: int
  emitted :: "sm_signal list"

text \<open>
  The directory tree below the storage root: a file with its size, or a directory with its
  named children.  \<open>fs_exists\<close> and \<open>fs_remove\<close> are the answers of \<^verbatim>\<open>QDir::exists\<close>
  and \<^verbatim>\<open>QDir::removeRecursively\<close> for a child of the root.
\<close>

datatype node = File int | Dir "(string \<times> node) list"

record fs_view =
  fs_entries :: "(string \<times> node) list"
  fs_exists :: "string \<Rightarrow> bool"
  fs_remove :: "string \<Rightarrow> bool"

definition emit :: "sm_signal \<Rightarrow> storage_manager \<Rightarrow> storage_manager" where
  "emit sig s = s\<lparr>emitted := emitted s @ [sig]\<rparr>"

subsection \<open>Operations\<close>

definition StorageManager :: "string \<Rightarrow> storage_manager" where
  "StorageManager storagePath =
     \<lparr>m_storagePath = storagePath, m_minFreeSpacePercent = 10,
      timer_active = False, timer_interval = 0, emitted = []\<rparr>"

definition setStoragePath :: "string \<Rightarrow> storage_manager \<Rightarrow> storage_manager" where
  "setStoragePath path s = (if m_storagePath s = path then s else s\<lparr>m_storagePath := path\<rparr>)"

definition setMinFreeSpacePercent :: "int \<Rightarrow> storage_manager \<Rightarrow> storage_manager" where
  "setMinFreeSpacePercent percent s =
     (let percent = (if percent < 0 then 0 else if percent > 100 then 100 else percent)
      in if m_minFreeSpacePercent s \<noteq> percent then s\<lparr>m_minFreeSpacePercent := percent\<rparr> else s)"

definition minFreeSpacePercent :: "storage_manager \<Rightarrow> int" where
  "minFreeSpacePercent s = m_minFreeSpacePercent s"

text \<open>\<^verbatim>\<open>static_cast<double>(availableBytes) / totalBytes * 100.0\<close>\<close>

definition availablePercent :: "int \<Rightarrow> int \<Rightarrow> double" where
  "availablePercent availableBytes totalBytes =
     double_mul (double_div (double_of_int availableBytes) (double_of_int totalBytes))
       (double_of_int 100)"

definition checkStorageSpace :: "storage_info \<Rightarrow> storage_manager \<Rightarrow> bool \<times> storage_manager" where
  "checkStorageSpace storage s =
     (if \<not> isValid storage \<or> \<not> isReady storage then
        (False, emit (LowStorageSpace 0 0 (Double 0 0)) s)
      else
        let availableBytes = bytesAvailable storage;
            totalBytes = bytesTotal storage
        in if totalBytes > 0 then
             (let percent = availablePercent availableBytes totalBytes
              in if double_less percent (double_of_int (m_minFreeSpacePercent s)) then
                   (False, emit (LowStorageSpace availableBytes totalBytes percent) s)
                 else (True, s))
           else (False, emit (LowStorageSpace availableBytes totalBytes (Double 0 0)) s))"

text \<open>\<^verbatim>\<open>getDirSize\<close>: the sizes of all files below a directory, directories not counted.\<close>

fun files_size :: "node \<Rightarrow> int" where
  "files_size (File n) = n"
| "files_size (Dir cs) = sum_list (map (\<lambda>c. files_size (snd c)) cs)"

definition getDirSize :: "fs_view \<Rightarrow> string \<Rightarrow> int" where
  "getDirSize fs name =
     (case map_of (fs_entries fs) name of Some (Dir cs) \<Rightarrow> files_size (Dir cs) | _ \<Rightarrow> 0)"

text \<open>
  \<^verbatim>\<open>QRegExp("^\\d{8}$").exactMatch\<close>.  Names are strings of 8-bit characters, among which
  the decimal digits are \<open>0\<close> to \<open>9\<close>.
\<close>

definition is_digit :: "char \<Rightarrow> bool" where
  "is_digit c = (CHR ''0'' \<le> c \<and> c \<le> CHR ''9'')"

definition dateRegex_exactMatch :: "string \<Rightarrow> bool" where
  "dateRegex_exactMatch dirName = (length dirName = 8 \<and> list_all is_digit dirName)"

fun is_dir :: "node \<Rightarrow> bool" where
  "is_dir (Dir _) = True"
| "is_dir (File _) = False"

text \<open>
  \<^verbatim>\<open>storageDir.entryList(QDir::Dirs | QDir::NoDotAndDotDot)\<close>: the directories, without
  \<open>.\<close> and \<open>..\<close>; without the flag \<^verbatim>\<open>QDir::Hidden\<close>, names that begin with a dot are
  not listed either.
\<close>

definition is_hidden :: "string \<Rightarrow> bool" where
  "is_hidden n = (case n of [] \<Rightarrow> False | c # _ \<Rightarrow> c = CHR ''.'')"

definition entryList_dirs :: "(string \<times> node) list \<Rightarrow> string list" where
  "entryList_dirs entries =
     filter (\<lambda>n. n \<noteq> ''.'' \<and> n \<noteq> ''..'' \<and> \<not> is_hidden n)
       (map fst (filter (\<lambda>e. is_dir (snd e)) entries))"

text \<open>The empty string stands for the null \<^verbatim>\<open>QString()\<close> the source returns when nothing is found.\<close>

definition getOldestDateDir :: "fs_view \<Rightarrow> string" where
  "getOldestDateDir fs =
     (let dateDirs = entryList_dirs (fs_entries fs)
      in if dateDirs = [] then []
         else
           let validDateDirs = filter dateRegex_exactMatch dateDirs
           in if validDateDirs = [] then []
              else hd (sort validDateDirs))"

definition remove_entry :: "string \<Rightarrow> fs_view \<Rightarrow> fs_view" where
  "remove_entry name fs = fs\<lparr>fs_entries := filter (\<lambda>e. fst e \<noteq> name) (fs_entries fs)\<rparr>"

definition cleanupOldestDay :: "fs_view \<Rightarrow> storage_manager \<Rightarrow> bool \<times> fs_view \<times> storage_manager" where
  "cleanupOldestDay fs s =
     (let oldestDirName = getOldestDateDir fs
      in if oldestDirName = [] then
           (False, fs, emit (CleanupFailed NoDateDirectory) s)
         else if \<not> fs_exists fs oldestDirName then
           (False, fs, emit (CleanupFailed (DirectoryGone oldestDirName)) s)
         else
           let dirSize = getDirSize fs oldestDirName;
               success = fs_remove fs oldestDirName
           in if success then
                (True, remove_entry oldestDirName fs, emit (CleanupCompleted oldestDirName dirSize) s)
              else
                (False, fs, emit (CleanupFailed (RemoveFailed oldestDirName)) s))"

text \<open>
  \<^verbatim>\<open>performAutoCheck\<close>: \<open>before\<close> and \<open>after\<close> are what \<^verbatim>\<open>QStorageInfo\<close> reports at the
  first check and at the check that follows a successful cleanup.
\<close>

definition performAutoCheck ::
  "storage_info \<Rightarrow> storage_info \<Rightarrow> fs_view \<Rightarrow> storage_manager \<Rightarrow> fs_view \<times> storage_manager" where
  "performAutoCheck before after fs s =
     (case checkStorageSpace before s of
        (True, s1) \<Rightarrow> (fs, s1)
      | (False, s1) \<Rightarrow>
          (case cleanupOldestDay fs s1 of
             (True, fs2, s2) \<Rightarrow> (fs2, snd (checkStorageSpace after s2))
           | (False, fs2, s2) \<Rightarrow> (fs2, s2)))"

definition startAutoCheck ::
  "int \<Rightarrow> storage_info \<Rightarrow> storage_info \<Rightarrow> fs_view \<Rightarrow> storage_manager \<Rightarrow> fs_view \<times> storage_manager" where
  "startAutoCheck interval before after fs s =
     (if interval \<le> 0 then (fs, s)
      else
        case performAutoCheck before after fs s of
          (fs', s') \<Rightarrow> (fs', s'\<lparr>timer_active := True, timer_interval := interval\<rparr>))"

definition stopAutoCheck :: "storage_manager \<Rightarrow> storage_manager" where
  "stopAutoCheck s = (if timer_active s then s\<lparr>timer_active := False\<rparr> else s)"

text \<open>
  A call of a public operation, or a firing of the timer, together with what the
  environment answers during it; and a run of a sequence of them.  A change of the storage
  path comes with the directory tree below the new root.
\<close>

datatype sm_op =
    OpSetStoragePath string fs_view
  | OpSetMinFreeSpacePercent int
  | OpCheckStorageSpace storage_info
  | OpCleanupOldestDay
  | OpStartAutoCheck int storage_info storage_info
  | OpStopAutoCheck
  | OpTimerTimeout storage_info storage_info

fun sm_step :: "sm_op \<Rightarrow> fs_view \<times> storage_manager \<Rightarrow> fs_view \<times> storage_manager" where
  "sm_step (OpSetStoragePath p tree) (fs, s) =
     (if m_storagePath s = p then fs else tree, setStoragePath p s)"
| "sm_step (OpSetMinFreeSpacePercent p) (fs, s) = (fs, setMinFreeSpacePercent p s)"
| "sm_step (OpCheckStorageSpace st) (fs, s) = (fs, snd (checkStorageSpace st s))"
| "sm_step OpCleanupOldestDay (fs, s) = snd (cleanupOldestDay fs s)"
| "sm_step (OpStartAutoCheck i b a) (fs, s) = startAutoCheck i b a fs s"
| "sm_step OpStopAutoCheck (fs, s) = (fs, stopAutoCheck s)"
| "sm_step (OpTimerTimeout b a) (fs, s) =
     (if timer_active s then performAutoCheck b a fs s else (fs, s))"

fun sm_run :: "sm_op list \<Rightarrow> fs_view \<times> storage_manager \<Rightarrow> fs_view \<times> storage_manager" where
  "sm_run [] w = w"
| "sm_run (op # ops) w = sm_run ops (sm_step op w)"

section \<open>Recording pipeline (recordingthread.cpp)\<close>

subsection \<open>State\<close>

text \<open>
  A pointer to an FFmpeg object: \<^verbatim>\<open>nullptr\<close>, a live object, or a pointer whose object
  has been freed while the member still holds the address.
\<close>

datatype ff_ptr = Null | Live | Dangling

text \<open>\<^verbatim>\<open>struct FrameData\<close>: an owned copy of the payload and its size.\<close>

record FrameData =
  frame_data :: "u8 list"
  frame_size :: int

text \<open>What the codec and the container are asked to do, in the order of the calls.\<close>

datatype codec_call =
    SendFrame int "u8 list"
  | SendFlush
  | WriteTrailer

datatype record_error =
    NoOutputContext | NoEncoder | NoCodecContext | CodecOpenFailed | NoStream
  | ParamCopyFailed | FileOpenFailed | HeaderFailed | NoFrame | NoFrameBuffer
  | NoPacket | NoSwsContext
  | SendFrameFailed | ReceivePacketFailed | WritePacketFailed

datatype rec_signal =
    RecordError record_error
  | RecordingTimeReached30Minutes string

record segment_timer =
  seg_active :: bool
  seg_interval :: int

text \<open>
  The members of \<^verbatim>\<open>RecordingThread\<close>.  Times of the steady clock are integers
  (microseconds).  \<open>thread_running\<close> is \<^verbatim>\<open>QThread::isRunning()\<close>; \<open>codec_calls\<close> and
  \<open>rec_emitted\<close> record the calls made to the codec and the signals emitted, oldest first.
\<close>

record recorder =
  m_isRecording :: bool
  m_shouldExit :: bool
  m_filePath :: string
  m_frameCount :: int
  m_width :: int
  m_height :: int
  m_frameQueue :: "FrameData list"
  m_formatContext :: ff_ptr
  m_codecContext :: ff_ptr
  m_swsContext :: ff_ptr
  m_frame :: ff_ptr
  m_packet :: ff_ptr
  m_startTime :: int
  m_lastFrameTime :: int
  m_totalFrames :: int
  m_totalTime :: double
  m_segmentTimer :: "segment_timer option"
  m_autoSegmentation :: bool
  m_maxRecordingMinutes :: int
  thread_running :: bool
  codec_calls :: "codec_call list"
  rec_emitted :: "rec_signal list"



definition RecordingThread :: "int \<Rightarrow> recorder" where
  "RecordingThread now =
     \<lparr>m_isRecording = False, m_shouldExit = False, m_filePath = [], m_frameCount = 0,
      m_width = 0, m_height = 0, m_frameQueue = [],
      m_formatContext = Null, m_codecContext = Null, m_swsContext = Null,
      m_frame = Null, m_packet = Null,
      m_startTime = now, m_lastFrameTime = now, m_totalFrames = 0, m_totalTime = Double 0 0,
      m_segmentTimer = None, m_autoSegmentation = True, m_maxRecordingMinutes = 30,
      thread_running = False, codec_calls = [], rec_emitted = []\<rparr>"

definition rec_emit :: "rec_signal \<Rightarrow> recorder \<Rightarrow> recorder" where
  "rec_emit sig s = s\<lparr>rec_emitted := rec_emitted s @ [sig]\<rparr>"

subsection \<open>initRecorder\<close>

text \<open>
  How far the FFmpeg setup gets: \<open>None\<close> is success, \<open>Some e\<close> the step that fails.  Each
  failure branch emits \<^verbatim>\<open>recordError\<close> and leaves the members as the source does: a context
  freed through \<^verbatim>\<open>avcodec_free_context(&p)\<close>, \<^verbatim>\<open>av_frame_free(&p)\<close> or
  \<^verbatim>\<open>av_packet_free(&p)\<close> is reset to null, one freed through
  \<^verbatim>\<open>avformat_free_context(p)\<close> is null only where the source assigns \<^verbatim>\<open>nullptr\<close>.
\<close>

definition initRecorder :: "record_error option \<Rightarrow> recorder \<Rightarrow> bool \<times> recorder" where
  "initRecorder outcome s =
     (case outcome of
        None \<Rightarrow>
          (True, s\<lparr>m_formatContext := Live, m_codecContext := Live, m_frame := Live,
                   m_packet := Live, m_swsContext := Live\<rparr>)
      | Some NoOutputContext \<Rightarrow>
          (False, rec_emit (RecordError NoOutputContext) (s\<lparr>m_formatContext := Null\<rparr>))
      | Some NoEncoder \<Rightarrow>
          (False, rec_emit (RecordError NoEncoder) (s\<lparr>m_formatContext := Dangling\<rparr>))
      | Some NoCodecContext \<Rightarrow>
          (False, rec_emit (RecordError NoCodecContext)
                    (s\<lparr>m_formatContext := Dangling, m_codecContext := Null\<rparr>))
      | Some NoFrame \<Rightarrow>
          (False, rec_emit (RecordError NoFrame)
                    (s\<lparr>m_formatContext := Null, m_codecContext := Null, m_frame := Null\<rparr>))
      | Some NoFrameBuffer \<Rightarrow>
          (False, rec_emit (RecordError NoFrameBuffer)
                    (s\<lparr>m_formatContext := Null, m_codecContext := Null, m_frame := Null\<rparr>))
      | Some NoPacket \<Rightarrow>
          (False, rec_emit (RecordError NoPacket)
                    (s\<lparr>m_formatContext := Null, m_codecContext := Null, m_frame := Null,
                       m_packet := Null\<rparr>))
      | Some NoSwsContext \<Rightarrow>
          (False, rec_emit (RecordError NoSwsContext)
                    (s\<lparr>m_formatContext := Dangling, m_codecContext := Live, m_frame := Null,
                       m_packet := Null, m_swsContext := Null\<rparr>))
      | Some e \<Rightarrow>
          (False, rec_emit (RecordError e) (s\<lparr>m_formatContext := Null, m_codecContext := Null\<rparr>)))"

subsection \<open>startRecording, stopRecording, addFrameToQueue\<close>

text \<open>
  \<open>now\<close> is the reading of the steady clock and \<open>outcome\<close> the outcome of
  \<^verbatim>\<open>initRecorder\<close>.  The mutex and the wake-ups of the condition variable have no effect on
  the members and are not modelled.

  The interval of the segment timer, \<^verbatim>\<open>m_maxRecordingMinutes * 60 * 1000\<close>, is a product of
  \<^verbatim>\<open>int\<close>s.  It is written here on the integers, which is what the source computes as long
  as the product is within the range of \<^verbatim>\<open>int\<close>, that is for at most 35791 minutes (beyond
  that the source overflows, and its behaviour is undefined).  Only the constructor assigns
  the member, the value 30.
\<close>

definition start_segment_timer :: "recorder \<Rightarrow> recorder" where
  "start_segment_timer s =
     (if m_autoSegmentation s then
        s\<lparr>m_segmentTimer :=
             Some \<lparr>seg_active = True, seg_interval = m_maxRecordingMinutes s * 60 * 1000\<rparr>\<rparr>
      else s)"

definition startRecording ::
  "string \<Rightarrow> int \<Rightarrow> int \<Rightarrow> int \<Rightarrow> record_error option \<Rightarrow> recorder \<Rightarrow> bool \<times> recorder" where
  "startRecording filePath width height now outcome s =
     (if m_isRecording s then (False, s)
      else
        let s1 = s\<lparr>m_filePath := filePath, m_width := width, m_height := height,
                   m_frameCount := 0, m_totalFrames := 0, m_totalTime := Double 0 0,
                   m_startTime := now, m_lastFrameTime := now, m_shouldExit := False\<rparr>
        in case initRecorder outcome s1 of
             (False, s2) \<Rightarrow> (False, s2)
           | (True, s2) \<Rightarrow>
               (True, (start_segment_timer (s2\<lparr>m_isRecording := True\<rparr>))\<lparr>thread_running := True\<rparr>))"

definition stopRecording :: "recorder \<Rightarrow> recorder" where
  "stopRecording s =
     (if \<not> m_isRecording s then s
      else
        let s1 = s\<lparr>m_isRecording := False\<rparr>
        in case m_segmentTimer s1 of
             Some t \<Rightarrow> (if seg_active t then s1\<lparr>m_segmentTimer := Some (t\<lparr>seg_active := False\<rparr>)\<rparr> else s1)
           | None \<Rightarrow> s1)"

text \<open>
  The constructor \<^verbatim>\<open>FrameData(src, s)\<close> allocates \<open>s\<close> bytes and copies them from \<open>src\<close>.
  A null \<^verbatim>\<open>frameData\<close> pointer is \<open>None\<close>; \<open>sz\<close> is the parameter \<^verbatim>\<open>size\<close>.
\<close>

definition new_FrameData :: "u8 list \<Rightarrow> int \<Rightarrow> FrameData" where
  "new_FrameData src s = \<lparr>frame_data = take (nat s) src, frame_size = s\<rparr>"

definition addFrameToQueue :: "u8 list option \<Rightarrow> int \<Rightarrow> recorder \<Rightarrow> bool \<times> recorder" where
  "addFrameToQueue frameData sz s =
     (if \<not> m_isRecording s \<or> frameData = None \<or> sz \<le> 0 then (False, s)
      else (True, s\<lparr>m_frameQueue := m_frameQueue s @ [new_FrameData (the frameData) sz]\<rparr>))"

subsection \<open>The worker: encodeFrame, processFrame, cleanupRecorder, run\<close>











section \<open>Recording orchestration (monitorpage.cpp): stopRecording\<close>

text \<open>
  The hour and the minute of a \<^verbatim>\<open>QDateTime\<close>, the only parts \<^verbatim>\<open>toString("HH:mm")\<close> reads
  (hour below 24, minute below 60); \<open>HH\<close> and \<open>mm\<close> are written with two digits.
\<close>

record qdatetime =
  hour :: nat
  minute :: nat

definition digit_char :: "nat \<Rightarrow> char" where
  "digit_char d = ''0123456789'' ! d"

definition two_digits :: "nat \<Rightarrow> string" where
  "two_digits n = [digit_char (n div 10), digit_char (n mod 10)]"

definition toString_HHmm :: "qdatetime \<Rightarrow> string" where
  "toString_HHmm t = two_digits (hour t) @ '':'' @ two_digits (minute t)"

text \<open>
  The files that exist, each under its absolute path, and whether the operating system
  carries out the renaming of an existing file to a free name.
\<close>

record file_system =
  fs_files :: "string list"
  fs_rename_ok :: "string \<Rightarrow> string \<Rightarrow> bool"

definition QFile_exists :: "string \<Rightarrow> file_system \<Rightarrow> bool" where
  "QFile_exists fileName fs = (fileName \<in> set (fs_files fs))"

text \<open>
  \<^verbatim>\<open>QFile::rename\<close> fails when the file does not exist, when the new name is taken (Qt does
  not overwrite), or when the operating system refuses; otherwise the file is found under
  the new name and no longer under the old one.
\<close>

definition QFile_rename :: "string \<Rightarrow> string \<Rightarrow> file_system \<Rightarrow> bool \<times> file_system" where
  "QFile_rename fileName newName fs =
     (if QFile_exists fileName fs \<and> \<not> QFile_exists newName fs \<and> fs_rename_ok fs fileName newName
      then (True, fs\<lparr>fs_files := map (\<lambda>p. if p = fileName then newName else p) (fs_files fs)\<rparr>)
      else (False, fs))"

text \<open>The components of a path, separated by \<open>/\<close>; an absolute path begins with an empty one.\<close>

primrec path_components :: "string \<Rightarrow> string list" where
  "path_components [] = [[]]"
| "path_components (c # cs) =
     (if c = CHR ''/'' then [] # path_components cs
      else case path_components cs of x # xs \<Rightarrow> (c # x) # xs | [] \<Rightarrow> [[c]])"

text \<open>
  \<^verbatim>\<open>QFileInfo(path).dir().absolutePath()\<close>, for paths like those \<^verbatim>\<open>startRecording\<close> builds:
  an absolute path \<open>/c1/.../cn/name\<close> with at least one directory, whose components are
  not empty and are neither \<open>.\<close> nor \<open>..\<close>.  For them the result is \<open>/c1/.../cn\<close>.  For
  any other path (relative, directly in the root directory, or with redundant parts) the
  answer depends on the working directory of the process and on how Qt cleans the path; it
  is not modelled, which is the result \<open>None\<close>.
\<close>

definition dir_absolutePath :: "string \<Rightarrow> string option" where
  "dir_absolutePath path =
     (case path_components path of
        [] # c # d # cs \<Rightarrow>
          if list_all (\<lambda>x. x \<noteq> [] \<and> x \<noteq> ''.'' \<and> x \<noteq> ''..'') (c # d # cs)
          then Some (concat (map (\<lambda>x. ''/'' @ x) (butlast (c # d # cs))))
          else None
      | _ \<Rightarrow> None)"

text \<open>
  The members of \<^verbatim>\<open>MonitorPage\<close> that \<^verbatim>\<open>stopRecording\<close> touches.  \<open>mp_isRecording\<close> is
  its member \<^verbatim>\<open>m_isRecording\<close>; \<open>ui_recording\<close> stands for the state of the record button,
  the status label and the time label; \<open>saved_messages\<close> are the paths shown by the
  message box at the end of \<^verbatim>\<open>stopRecording\<close>.
\<close>

record monitor_page =
  mp_isRecording :: bool
  m_currentVideoFile :: string
  m_recordingStartTime :: qdatetime
  m_videoRecorder :: "recorder option"
  m_recordTimer_active :: bool
  ui_recording :: bool
  saved_messages :: "string list"

text \<open>
  \<^verbatim>\<open>MonitorPage::stopRecording\<close>; \<open>recordingEndTime\<close> is the reading of
  \<^verbatim>\<open>QDateTime::currentDateTime()\<close>.  The result is \<open>None\<close> only where the directory of the
  working file is outside the model.
\<close>

definition MonitorPage_stopRecording ::
  "qdatetime \<Rightarrow> file_system \<Rightarrow> monitor_page \<Rightarrow> (file_system \<times> monitor_page) option" where
  "MonitorPage_stopRecording recordingEndTime fs mp =
     (if \<not> mp_isRecording mp then Some (fs, mp)
      else
        let mp1 = mp\<lparr>m_videoRecorder := map_option stopRecording (m_videoRecorder mp),
                     m_recordTimer_active := False,
                     ui_recording := False,
                     mp_isRecording := False\<rparr>;
            startTimeStr = toString_HHmm (m_recordingStartTime mp1);
            endTimeStr = toString_HHmm recordingEndTime;
            newVideoFileName = startTimeStr @ ''-'' @ endTimeStr @ ''.mp4'';
            renamed =
              (if m_currentVideoFile mp1 \<noteq> [] then
                 (case dir_absolutePath (m_currentVideoFile mp1) of
                    None \<Rightarrow> None
                  | Some dir \<Rightarrow>
                      (let newVideoFilePath = dir @ ''/'' @ newVideoFileName
                       in if QFile_exists newVideoFilePath fs then Some (fs, mp1)
                          else
                            (case QFile_rename (m_currentVideoFile mp1) newVideoFilePath fs of
                               (True, fs') \<Rightarrow> Some (fs', mp1\<lparr>m_currentVideoFile := newVideoFilePath\<rparr>)
                             | (False, fs') \<Rightarrow> Some (fs', mp1))))
               else Some (fs, mp1))
        in map_option
             (\<lambda>(fs', mp2). (fs', mp2\<lparr>saved_messages := saved_messages mp2 @ [m_currentVideoFile mp2]\<rparr>))
             renamed)"

section \<open>Notions of the specification\<close>


text \<open>The immediate subdirectories of the storage root whose name is exactly 8 decimal digits.\<close>

definition date_candidates :: "fs_view \<Rightarrow> string set" where
  "date_candidates fs = {n. \<exists>cs. (n, Dir cs) \<in> set (fs_entries fs) \<and> dateRegex_exactMatch n}"

text \<open>The invariant of the threshold.\<close>

definition threshold_ok :: "storage_manager \<Rightarrow> bool" where
  "threshold_ok s = (0 \<le> m_minFreeSpacePercent s \<and> m_minFreeSpacePercent s \<le> 100)"

text \<open>One iteration of the body of the loop in \<^verbatim>\<open>v4l2_init_buffer\<close>: the early return, or the next state.\<close>

definition buffer_step :: "driver \<Rightarrow> nat \<Rightarrow> v4l2_state \<Rightarrow> (int \<times> v4l2_state) + v4l2_state" where
  "buffer_step drv i st =
        (case querybuf drv i of
           None \<Rightarrow> Inl (- 1, st)
         | Some (len, offset) \<Rightarrow>
             (let st1 = set_length i len st
              in case mmap_result drv i of
                   None \<Rightarrow> Inl (- 1, set_start i MapFailed st1)
                 | Some a \<Rightarrow>
                     Inr ((set_start i (Addr a) st1)\<lparr>mapped := mapped st1 @ [(a, len)]\<rparr>)))"



text \<open>
  The name a finalized segment is to get, in the directory \<open>dir\<close> of the working file: the
  start and the end time as \<open>HH:mm\<close> joined by \<open>-\<close>, with the extension \<open>.mp4\<close>.
\<close>

definition segment_target :: "qdatetime \<Rightarrow> qdatetime \<Rightarrow> string \<Rightarrow> string" where
  "segment_target startTime endTime dir =
     dir @ ''/'' @ toString_HHmm startTime @ ''-'' @ toString_HHmm endTime @ ''.mp4''"


definition p2 :: "int \<Rightarrow> real" where
  "p2 e = 2 powi e"


section \<open>Properties of the pixel conversion\<close>

lemma lit31_nat: "(31::nat) = mask 5"
  by (simp add: mask_eq_exp_minus_1)

lemma lit63_nat: "(63::nat) = mask 6"
  by (simp add: mask_eq_exp_minus_1)

lemma lit31_word: "(31::'a::len word) = mask 5"
  by (simp add: mask_eq_exp_minus_1)

lemma lit63_word: "(63::'a::len word) = mask 6"
  by (simp add: mask_eq_exp_minus_1)

lemma unat_chan_r: "unat (chan_r p) = drop_bit 11 (unat p) AND 31"
  unfolding chan_r_def lit31_nat lit31_word
  by (rule bit_eqI) (auto simp add: bit_simps)

lemma unat_chan_g: "unat (chan_g p) = drop_bit 5 (unat p) AND 63"
  unfolding chan_g_def lit63_nat lit63_word
  by (rule bit_eqI) (auto simp add: bit_simps)

lemma unat_chan_b: "unat (chan_b p) = unat p AND 31"
  unfolding chan_b_def lit31_nat lit31_word
  by (rule bit_eqI) (auto simp add: bit_simps)

lemma unat_expand5_r:
  "unat (expand5 (chan_r p)) =
     push_bit 3 (drop_bit 11 (unat p) AND 31) OR drop_bit 2 (drop_bit 11 (unat p) AND 31)"
  unfolding chan_r_def expand5_def lit31_nat lit31_word
  by (rule bit_eqI) (auto simp add: bit_simps)

lemma unat_expand6_g:
  "unat (expand6 (chan_g p)) =
     push_bit 2 (drop_bit 5 (unat p) AND 63) OR drop_bit 4 (drop_bit 5 (unat p) AND 63)"
  unfolding chan_g_def expand6_def lit63_nat lit63_word
  by (rule bit_eqI) (auto simp add: bit_simps)

lemma unat_expand5_b:
  "unat (expand5 (chan_b p)) =
     push_bit 3 (unat p AND 31) OR drop_bit 2 (unat p AND 31)"
  unfolding chan_b_def expand5_def lit31_nat lit31_word
  by (rule bit_eqI) (auto simp add: bit_simps)

lemma top_expand5_r: "drop_bit 3 (expand5 (chan_r p)) = chan_r p"
  unfolding chan_r_def expand5_def lit31_word
  by (rule bit_eqI) (auto simp add: bit_simps)

lemma top_expand6_g: "drop_bit 2 (expand6 (chan_g p)) = chan_g p"
  unfolding chan_g_def expand6_def lit63_word
  by (rule bit_eqI) (auto simp add: bit_simps)

lemma top_expand5_b: "drop_bit 3 (expand5 (chan_b p)) = chan_b p"
  unfolding chan_b_def expand5_def lit31_word
  by (rule bit_eqI) (auto simp add: bit_simps)

lemma low_expand5_r: "take_bit 3 (expand5 (chan_r p)) = drop_bit 2 (chan_r p)"
  unfolding chan_r_def expand5_def lit31_word
  by (rule bit_eqI) (auto simp add: bit_simps)

lemma low_expand6_g: "take_bit 2 (expand6 (chan_g p)) = drop_bit 4 (chan_g p)"
  unfolding chan_g_def expand6_def lit63_word
  by (rule bit_eqI) (auto simp add: bit_simps)

lemma low_expand5_b: "take_bit 3 (expand5 (chan_b p)) = drop_bit 2 (chan_b p)"
  unfolding chan_b_def expand5_def lit31_word
  by (rule bit_eqI) (auto simp add: bit_simps)

lemma take3_update:
  "3 * i + 2 < length dst \<Longrightarrow>
   take (3 * i + 3) (dst[3 * i := a, 3 * i + 1 := b, 3 * i + 2 := c]) = take (3 * i) dst @ [a, b, c]"
proof -
  assume h: "3 * i + 2 < length dst"
  have e: "3 * i + 3 = Suc (Suc (Suc (3 * i)))" by simp
  show ?thesis unfolding e using h
    by (simp add: take_Suc_conv_app_nth)
qed

lemma rgb565_loop_eq:
  "0 \<le> i \<Longrightarrow> i \<le> pixels \<Longrightarrow> nat pixels \<le> length src \<Longrightarrow> 3 * nat pixels \<le> length dst \<Longrightarrow>
   rgb565_loop i pixels src dst =
     take (3 * nat i) dst @ concat (map rgb888_of_pixel (drop (nat i) (take (nat pixels) src)))
       @ drop (3 * nat pixels) dst"
proof (induction i pixels src dst rule: rgb565_loop.induct)
  case (1 i pixels src dst)
  show ?case
  proof (cases "i < pixels")
    case False
    with 1(3) have "i = pixels" by simp
    then show ?thesis by (simp add: rgb565_loop.simps[of pixels])
  next
    case True
    define dst' where "dst' = dst[nat (i * 3 + 0) := expand5 (chan_r (src ! nat i)),
                   nat (i * 3 + 1) := expand6 (chan_g (src ! nat i)),
                   nat (i * 3 + 2) := expand5 (chan_b (src ! nat i))]"
    have step: "rgb565_loop i pixels src dst = rgb565_loop (i + 1) pixels src dst'"
      using True by (subst rgb565_loop.simps) (simp add: Let_def dst'_def)
    have n1: "nat (i * 3 + 0) = 3 * nat i" "nat (i * 3 + 1) = 3 * nat i + 1"
       "nat (i * 3 + 2) = 3 * nat i + 2" "nat (i + 1) = nat i + 1"
      using 1(2) by (simp_all add: nat_add_distrib nat_mult_distrib)
    have lt: "3 * nat i + 2 < length dst" "nat i < nat pixels" "3 * nat i + 2 < 3 * nat pixels"
      using True 1(2) 1(5) by auto
    have len: "length dst' = length dst" by (simp add: dst'_def)
    have IH: "rgb565_loop (i + 1) pixels src dst' =
       take (3 * nat (i + 1)) dst' @ concat (map rgb888_of_pixel (drop (nat (i + 1)) (take (nat pixels) src)))
       @ drop (3 * nat pixels) dst'"
      using 1(1)[OF True refl refl refl refl] True 1(2) 1(4) 1(5) len
      by (simp add: dst'_def)
    have t: "take (3 * nat (i + 1)) dst' = take (3 * nat i) dst @ rgb888_of_pixel (src ! nat i)"
    proof -
      have "3 * nat (i + 1) = 3 * nat i + 3" by (simp add: n1)
      then show ?thesis
        unfolding dst'_def n1 rgb888_of_pixel_def using take3_update[OF lt(1)] by (simp add: add.commute)
    qed
    have d: "drop (3 * nat pixels) dst' = drop (3 * nat pixels) dst"
    proof -
      have "3 * nat i < 3 * nat pixels" "3 * nat i + 1 < 3 * nat pixels"
        using lt(3) by linarith+
      then show ?thesis unfolding dst'_def n1 using lt(3)
        by (simp only: drop_update_cancel)
    qed
    have s: "drop (nat i) (take (nat pixels) src) = src ! nat i # drop (nat (i + 1)) (take (nat pixels) src)"
    proof -
      have l: "nat i < length (take (nat pixels) src)" using lt(2) 1(4) by simp
      have "(take (nat pixels) src) ! nat i = src ! nat i" using lt(2) by simp
      with Cons_nth_drop_Suc[OF l] show ?thesis unfolding n1 by simp
    qed
    show ?thesis
      unfolding step IH t d s by simp
  qed
qed


lemma unat_rgb888_of_pixel: "map unat (rgb888_of_pixel p) = spec_rgb888 (unat p)"
  by (simp add: rgb888_of_pixel_def spec_rgb888_def Let_def
      unat_expand5_r unat_expand6_g unat_expand5_b)

lemma length_concat_rgb888: "length (concat (map rgb888_of_pixel ps)) = 3 * length ps"
  by (induction ps) (simp_all add: rgb888_of_pixel_def)

lemma map_unat_concat_rgb888:
  "map unat (concat (map rgb888_of_pixel ps)) = concat (map (\<lambda>p. spec_rgb888 (unat p)) ps)"
  by (induction ps) (simp_all add: unat_rgb888_of_pixel)

lemma spec_top_low_5:
  fixes c :: nat
  shows "drop_bit 3 (push_bit 3 (c AND 31) OR drop_bit 2 (c AND 31)) = c AND 31"
    and "take_bit 3 (push_bit 3 (c AND 31) OR drop_bit 2 (c AND 31)) = drop_bit 2 (c AND 31)"
  unfolding lit31_nat
  by (rule bit_eqI, auto simp add: bit_simps)+

lemma spec_top_low_6:
  fixes c :: nat
  shows "drop_bit 2 (push_bit 2 (c AND 63) OR drop_bit 4 (c AND 63)) = c AND 63"
    and "take_bit 2 (push_bit 2 (c AND 63) OR drop_bit 4 (c AND 63)) = drop_bit 4 (c AND 63)"
  unfolding lit63_nat
  by (rule bit_eqI, auto simp add: bit_simps)+

text \<open>
  Claim C1.  For a call with \<open>pixels\<close> pixels (both buffers large enough), the first
  \<open>3 * pixels\<close> bytes of the destination are, pixel by pixel in input order, the three
  values R, G, B given by the formula of the specification
  (\<open>R = (r << 3) | (r >> 2)\<close> with \<open>r = (p >> 11) & 0x1F\<close>, and so on), the rest of the
  destination is untouched, and in each output channel the top bits are the channel bits
  of the source and the low bits repeat the channel's own high bits.
\<close>

theorem rgb565_to_rgb888_correct:
  assumes "nat pixels \<le> length src" and "3 * nat pixels \<le> length dst"
  shows "(let out = rgb565_to_rgb888 src dst pixels in
           length out = length dst
         \<and> map unat (take (3 * nat pixels) out)
             = concat (map (\<lambda>p. spec_rgb888 (unat p)) (take (nat pixels) src))
         \<and> length (take (3 * nat pixels) out) = 3 * nat pixels
         \<and> drop (3 * nat pixels) out = drop (3 * nat pixels) dst)
       \<and> (\<forall>p. \<exists>R G B. spec_rgb888 p = [R, G, B]
             \<and> drop_bit 3 R = drop_bit 11 p AND 0x1F \<and> take_bit 3 R = drop_bit 2 (drop_bit 11 p AND 0x1F)
             \<and> drop_bit 2 G = drop_bit 5 p AND 0x3F \<and> take_bit 2 G = drop_bit 4 (drop_bit 5 p AND 0x3F)
             \<and> drop_bit 3 B = p AND 0x1F \<and> take_bit 3 B = drop_bit 2 (p AND 0x1F))"
proof -
  define n where "n = nat pixels"
  define body where "body = concat (map rgb888_of_pixel (take n src))"
  have lb: "length body = 3 * n"
    using assms(1) by (simp add: body_def length_concat_rgb888 n_def)
  have out: "rgb565_to_rgb888 src dst pixels = body @ drop (3 * n) dst"
  proof (cases "0 \<le> pixels")
    case True
    then show ?thesis
      unfolding rgb565_to_rgb888_def body_def n_def
      using rgb565_loop_eq[of 0 pixels src dst] assms by simp
  next
    case False
    then show ?thesis
      unfolding rgb565_to_rgb888_def body_def n_def
      by (simp add: rgb565_loop.simps[of 0])
  qed
  have 1: "length (rgb565_to_rgb888 src dst pixels) = length dst"
    using assms(2) by (simp add: out lb n_def)
  have 2: "take (3 * n) (rgb565_to_rgb888 src dst pixels) = body"
    by (simp add: out lb)
  have 3: "drop (3 * n) (rgb565_to_rgb888 src dst pixels) = drop (3 * n) dst"
    by (simp add: out lb)
  have 4: "map unat body = concat (map (\<lambda>p. spec_rgb888 (unat p)) (take n src))"
    by (simp add: body_def map_unat_concat_rgb888)
  have A: "let out = rgb565_to_rgb888 src dst pixels in
           length out = length dst
         \<and> map unat (take (3 * nat pixels) out)
             = concat (map (\<lambda>p. spec_rgb888 (unat p)) (take (nat pixels) src))
         \<and> length (take (3 * nat pixels) out) = 3 * nat pixels
         \<and> drop (3 * nat pixels) out = drop (3 * nat pixels) dst"
    unfolding Let_def n_def[symmetric] using 1 2 3 4 lb by simp
  have B: "\<forall>p. \<exists>R G B. spec_rgb888 p = [R, G, B]
             \<and> drop_bit 3 R = drop_bit 11 p AND 0x1F \<and> take_bit 3 R = drop_bit 2 (drop_bit 11 p AND 0x1F)
             \<and> drop_bit 2 G = drop_bit 5 p AND 0x3F \<and> take_bit 2 G = drop_bit 4 (drop_bit 5 p AND 0x3F)
             \<and> drop_bit 3 B = p AND 0x1F \<and> take_bit 3 B = drop_bit 2 (p AND 0x1F)"
  proof
    fix p :: nat
    show "\<exists>R G B. spec_rgb888 p = [R, G, B]
             \<and> drop_bit 3 R = drop_bit 11 p AND 0x1F \<and> take_bit 3 R = drop_bit 2 (drop_bit 11 p AND 0x1F)
             \<and> drop_bit 2 G = drop_bit 5 p AND 0x3F \<and> take_bit 2 G = drop_bit 4 (drop_bit 5 p AND 0x3F)
             \<and> drop_bit 3 B = p AND 0x1F \<and> take_bit 3 B = drop_bit 2 (p AND 0x1F)"
      unfolding spec_rgb888_def Let_def
      apply (rule exI)+
      apply (rule conjI, rule refl)
      apply (intro conjI)
           apply (rule spec_top_low_5 spec_top_low_6)+
      done
  qed
  from A B show ?thesis by (rule conjI)
qed

theorem rgb565_to_rgb888_correct_witness:
  "nat 4 \<le> length [0xF800, 0x07E0, 0x001F, 0x8410 :: u16]
   \<and> 3 * nat 4 \<le> length (replicate 13 (0xAA :: u8))
   \<and> map unat (take 12 (rgb565_to_rgb888 [0xF800, 0x07E0, 0x001F, 0x8410] (replicate 13 0xAA) 4))
       = [255, 0, 0, 0, 255, 0, 0, 0, 255, 132, 130, 132]
   \<and> drop 12 (rgb565_to_rgb888 [0xF800, 0x07E0, 0x001F, 0x8410] (replicate 13 0xAA) 4) = [0xAA]"
  using rgb565_to_rgb888_correct[of 4 "[0xF800, 0x07E0, 0x001F, 0x8410]" "replicate 13 0xAA"]
  by (simp add: Let_def spec_rgb888_def)

section \<open>Properties of the storage retention manager\<close>

lemma hd_sort_least:
  fixes xs :: "'a::linorder list"
  assumes "xs \<noteq> []"
  shows "hd (sort xs) \<in> set xs" and "\<forall>x\<in>set xs. hd (sort xs) \<le> x"
proof -
  from assms have ne: "sort xs \<noteq> []"
    by (metis length_0_conv length_sort)
  then obtain y ys where ys: "sort xs = y # ys" by (cases "sort xs") auto
  have "y \<in> set (sort xs)" by (simp add: ys)
  then have "y \<in> set xs" by (simp only: set_sort)
  then show "hd (sort xs) \<in> set xs" by (simp add: ys)
  have "sorted (y # ys)" using sorted_sort[of xs] by (simp add: ys)
  then have "\<forall>x\<in>set (y # ys). y \<le> x" by auto
  then show "\<forall>x\<in>set xs. hd (sort xs) \<le> x"
    by (metis list.sel(1) set_sort ys)
qed

lemma is_dir_iff: "is_dir x = (\<exists>cs. x = Dir cs)"
  by (cases x) auto

lemma not_dot_match: "dateRegex_exactMatch n \<Longrightarrow> n \<noteq> ''.'' \<and> n \<noteq> ''..'' \<and> \<not> is_hidden n"
  by (cases n) (auto simp: dateRegex_exactMatch_def is_hidden_def is_digit_def)

lemma set_valid_dirs:
  "set (filter dateRegex_exactMatch (entryList_dirs (fs_entries fs))) = date_candidates fs"
  unfolding entryList_dirs_def date_candidates_def
  using not_dot_match by (auto simp add: is_dir_iff image_iff) 

lemma getOldestDateDir_none:
  "date_candidates fs = {} \<Longrightarrow> getOldestDateDir fs = []"
  using set_valid_dirs[of fs]
  by (auto simp add: getOldestDateDir_def Let_def)

lemma getOldestDateDir_least:
  assumes "date_candidates fs \<noteq> {}"
  shows "getOldestDateDir fs \<in> date_candidates fs"
    and "\<forall>n\<in>date_candidates fs. getOldestDateDir fs \<le> n"
proof -
  let ?v = "filter dateRegex_exactMatch (entryList_dirs (fs_entries fs))"
  have "set ?v \<noteq> {}" unfolding set_valid_dirs by (rule assms)
  then have v: "?v \<noteq> []" by fastforce
  then have d: "entryList_dirs (fs_entries fs) \<noteq> []" by auto
  have g: "getOldestDateDir fs = hd (sort ?v)"
    using v d by (simp add: getOldestDateDir_def Let_def)
  have sv: "set ?v = date_candidates fs" by (rule set_valid_dirs)
  have "hd (sort ?v) \<in> set ?v" by (rule hd_sort_least(1)[OF v])
  then have "hd (sort ?v) \<in> date_candidates fs" by (simp only: sv)
  then show "getOldestDateDir fs \<in> date_candidates fs" by (simp only: g)
  have "\<forall>n\<in>set ?v. hd (sort ?v) \<le> n" by (rule hd_sort_least(2)[OF v])
  then have "\<forall>n\<in>date_candidates fs. hd (sort ?v) \<le> n" by (simp only: sv)
  then show "\<forall>n\<in>date_candidates fs. getOldestDateDir fs \<le> n" by (simp only: g)
qed

lemma candidate_nonempty: "n \<in> date_candidates fs \<Longrightarrow> n \<noteq> []"
  by (auto simp: date_candidates_def dateRegex_exactMatch_def)



lemma keep_nonmatching:
  "\<forall>e\<in>set (fs_entries fs). \<not> dateRegex_exactMatch (fst e) \<longrightarrow>
      e \<in> set (fs_entries (fst (snd (cleanupOldestDay fs s))))"
proof (cases "date_candidates fs = {}")
  case True
  then show ?thesis
    by (simp add: cleanupOldestDay_def Let_def getOldestDateDir_none)
next
  case False
  have m: "dateRegex_exactMatch (getOldestDateDir fs)"
    using getOldestDateDir_least(1)[OF False] by (simp add: date_candidates_def)
  show ?thesis
    using m by (auto simp add: cleanupOldestDay_def Let_def remove_entry_def)
qed

text \<open>
  Claim C3.  \<^verbatim>\<open>cleanupOldestDay\<close> considers only the immediate subdirectories of the
  storage root whose name is exactly 8 decimal digits.  When there is none it returns false
  and emits \<^verbatim>\<open>cleanupFailed\<close>; otherwise the directory it acts on is such a directory and
  its name is the lexicographically smallest among them.  An entry whose name does not
  match the pattern is still there after the call.  On the root with directories
  \<open>20230101\<close>, \<open>20230215\<close>, \<open>notadate\<close>, \<open>20221231\<close> it selects \<open>20221231\<close>.
\<close>

theorem cleanupOldestDay_selects_oldest:
  "(date_candidates fs = {} \<longrightarrow>
      cleanupOldestDay fs s = (False, fs, emit (CleanupFailed NoDateDirectory) s))
   \<and> (date_candidates fs \<noteq> {} \<longrightarrow>
        (let d = getOldestDateDir fs in
           d \<in> date_candidates fs \<and> (\<forall>n\<in>date_candidates fs. d \<le> n)
           \<and> cleanupOldestDay fs s =
               (if \<not> fs_exists fs d then (False, fs, emit (CleanupFailed (DirectoryGone d)) s)
                else if fs_remove fs d then
                  (True, remove_entry d fs, emit (CleanupCompleted d (getDirSize fs d)) s)
                else (False, fs, emit (CleanupFailed (RemoveFailed d)) s))))
   \<and> (\<forall>e\<in>set (fs_entries fs). \<not> dateRegex_exactMatch (fst e) \<longrightarrow>
          e \<in> set (fs_entries (fst (snd (cleanupOldestDay fs s)))))
   \<and> getOldestDateDir
         \<lparr>fs_entries = [(''20230101'', Dir a), (''20230215'', Dir b),
                        (''notadate'', Dir c), (''20221231'', Dir d)],
          fs_exists = ex, fs_remove = rm\<rparr> = ''20221231''"
proof (intro conjI impI)
  assume "date_candidates fs = {}"
  then show "cleanupOldestDay fs s = (False, fs, emit (CleanupFailed NoDateDirectory) s)"
    by (simp add: cleanupOldestDay_def Let_def getOldestDateDir_none)
next
  assume ne: "date_candidates fs \<noteq> {}"
  have 1: "getOldestDateDir fs \<in> date_candidates fs" by (rule getOldestDateDir_least(1)[OF ne])
  have 2: "\<forall>n\<in>date_candidates fs. getOldestDateDir fs \<le> n" by (rule getOldestDateDir_least(2)[OF ne])
  have 3: "getOldestDateDir fs \<noteq> []" using 1 by (rule candidate_nonempty)
  show "let d = getOldestDateDir fs in
           d \<in> date_candidates fs \<and> (\<forall>n\<in>date_candidates fs. d \<le> n)
           \<and> cleanupOldestDay fs s =
               (if \<not> fs_exists fs d then (False, fs, emit (CleanupFailed (DirectoryGone d)) s)
                else if fs_remove fs d then
                  (True, remove_entry d fs, emit (CleanupCompleted d (getDirSize fs d)) s)
                else (False, fs, emit (CleanupFailed (RemoveFailed d)) s))"
    unfolding Let_def using 1 2 3 by (simp add: cleanupOldestDay_def Let_def)
next
  show "\<forall>e\<in>set (fs_entries fs). \<not> dateRegex_exactMatch (fst e) \<longrightarrow>
          e \<in> set (fs_entries (fst (snd (cleanupOldestDay fs s))))"
    by (rule keep_nonmatching)
next
  show "getOldestDateDir
         \<lparr>fs_entries = [(''20230101'', Dir a), (''20230215'', Dir b),
                        (''notadate'', Dir c), (''20221231'', Dir d)],
          fs_exists = ex, fs_remove = rm\<rparr> = ''20221231''"
    by (simp add: getOldestDateDir_def entryList_dirs_def dateRegex_exactMatch_def is_digit_def
        is_hidden_def Let_def)
qed

theorem cleanupOldestDay_selects_oldest_witness:
  "date_candidates
     \<lparr>fs_entries = [(''20230101'', Dir [(''a.mp4'', File 100)]), (''notadate'', Dir []),
                    (''20221231'', Dir [(''b.mp4'', File 300), (''sub'', Dir [(''c.mp4'', File 7)])]),
                    (''19990101'', File 5)],
      fs_exists = (\<lambda>_. True), fs_remove = (\<lambda>_. True)\<rparr> \<noteq> {}
   \<and> cleanupOldestDay
     \<lparr>fs_entries = [(''20230101'', Dir [(''a.mp4'', File 100)]), (''notadate'', Dir []),
                    (''20221231'', Dir [(''b.mp4'', File 300), (''sub'', Dir [(''c.mp4'', File 7)])]),
                    (''19990101'', File 5)],
      fs_exists = (\<lambda>_. True), fs_remove = (\<lambda>_. True)\<rparr>
     (StorageManager ''/mnt/TFcard'')
   = (True,
      \<lparr>fs_entries = [(''20230101'', Dir [(''a.mp4'', File 100)]), (''notadate'', Dir []),
                     (''19990101'', File 5)],
       fs_exists = (\<lambda>_. True), fs_remove = (\<lambda>_. True)\<rparr>,
      (StorageManager ''/mnt/TFcard'')\<lparr>emitted := [CleanupCompleted ''20221231'' 307]\<rparr>)"
proof -
  let ?fs = "\<lparr>fs_entries = [(''20230101'', Dir [(''a.mp4'', File 100)]), (''notadate'', Dir []),
                    (''20221231'', Dir [(''b.mp4'', File 300), (''sub'', Dir [(''c.mp4'', File 7)])]),
                    (''19990101'', File 5)],
      fs_exists = (\<lambda>_. True), fs_remove = (\<lambda>_. True)\<rparr>"
  have "''20221231'' \<in> date_candidates ?fs"
    by (simp add: date_candidates_def dateRegex_exactMatch_def is_digit_def)
  then have ne: "date_candidates ?fs \<noteq> {}" by blast
  have g: "getOldestDateDir ?fs = ''20221231''"
    by (simp add: getOldestDateDir_def entryList_dirs_def dateRegex_exactMatch_def is_digit_def
        is_hidden_def Let_def)
  show ?thesis
    using cleanupOldestDay_selects_oldest[of ?fs "StorageManager ''/mnt/TFcard''"] ne
    by (simp add: g Let_def remove_entry_def getDirSize_def emit_def StorageManager_def)
qed

subsection \<open>Rounding error of the double-precision operations\<close>








lemma p2_mono: "a \<le> b \<Longrightarrow> p2 a \<le> p2 b"
  unfolding p2_def by (rule power_int_increasing) simp_all


























subsection \<open>The space check\<close>

lemma bit_length_numeral:
  "bit_length 0 = 0"
  "bit_length 1 = 1"
  "bit_length (Suc 0) = 1"
  "bit_length (numeral (Num.Bit0 k)) = Suc (bit_length (numeral k))"
  "bit_length (numeral (Num.Bit1 k)) = Suc (bit_length (numeral k))"
proof -
  show "bit_length 0 = 0" by (simp add: bit_length.simps)
  show s0: "bit_length (Suc 0) = 1"
    by (subst bit_length.simps) (simp add: bit_length.simps[of 0])
  then show "bit_length 1 = 1" by simp
  show "bit_length (numeral (Num.Bit0 k)) = Suc (bit_length (numeral k))"
    by (subst bit_length.simps) simp
  have "numeral (Num.Bit1 k) div (2::nat) = numeral k" by simp
  then show "bit_length (numeral (Num.Bit1 k)) = Suc (bit_length (numeral k))"
    by (subst bit_length.simps) simp
qed

lemmas double_eval =
  availablePercent_def double_of_int_def round_nearest_even_def Let_def bit_length_numeral




lemma double_of_10: "double_of_int 10 = Double 5629499534213120 (- 49)"
  by (simp add: double_eval)

text \<open>
  Two values every IEEE 754 implementation agrees on: one third is
  \<open>0x15555555555555 * 2^-54\<close>, and \<open>2^53 + 1\<close>, halfway between two doubles, is rounded to
  the even neighbour \<open>2^53\<close> while \<open>2^53 + 3\<close> is rounded up to \<open>2^53 + 4\<close>.
\<close>

lemma double_one_third:
  "double_div (double_of_int 1) (double_of_int 3) = Double 6004799503160661 (- 54)"
  by (simp add: double_eval)

lemma double_ties_to_even:
  "double_of_int 9007199254740993 = Double 4503599627370496 1"
  "double_of_int 9007199254740995 = Double 4503599627370498 1"
  by (simp_all add: double_eval)




lemma threshold_emit [simp]: "m_minFreeSpacePercent (emit sig s) = m_minFreeSpacePercent s"
  by (simp add: emit_def)

lemma threshold_checkStorageSpace [simp]:
  "m_minFreeSpacePercent (snd (checkStorageSpace st s)) = m_minFreeSpacePercent s"
  by (simp add: checkStorageSpace_def Let_def)

lemma threshold_cleanupOldestDay [simp]:
  "m_minFreeSpacePercent (snd (snd (cleanupOldestDay fs s))) = m_minFreeSpacePercent s"
  by (simp add: cleanupOldestDay_def Let_def)

lemma threshold_performAutoCheck [simp]:
  "m_minFreeSpacePercent (snd (performAutoCheck b a fs s)) = m_minFreeSpacePercent s"
proof -
  obtain r1 s1 where c1: "checkStorageSpace b s = (r1, s1)" by (cases "checkStorageSpace b s")
  obtain r2 fs2 s2 where c2: "cleanupOldestDay fs s1 = (r2, fs2, s2)"
    by (cases "cleanupOldestDay fs s1") auto
  have t1: "m_minFreeSpacePercent s1 = m_minFreeSpacePercent s"
    using threshold_checkStorageSpace[of b s] by (simp add: c1)
  have t2: "m_minFreeSpacePercent s2 = m_minFreeSpacePercent s1"
    using threshold_cleanupOldestDay[of fs s1] by (simp add: c2)
  show ?thesis
    by (cases r1; cases r2) (simp_all add: performAutoCheck_def c1 c2 t1 t2)
qed

lemma threshold_startAutoCheck [simp]:
  "m_minFreeSpacePercent (snd (startAutoCheck i b a fs s)) = m_minFreeSpacePercent s"
proof -
  obtain fs' s' where p: "performAutoCheck b a fs s = (fs', s')" by (cases "performAutoCheck b a fs s")
  have "m_minFreeSpacePercent s' = m_minFreeSpacePercent s"
    using threshold_performAutoCheck[of b a fs s] by (simp add: p)
  then show ?thesis by (simp add: startAutoCheck_def p)
qed

lemma setMinFreeSpacePercent_value:
  "m_minFreeSpacePercent (setMinFreeSpacePercent p s) = min 100 (max 0 p)"
  by (simp add: setMinFreeSpacePercent_def Let_def)

lemma threshold_ok_step: "threshold_ok (snd w) \<Longrightarrow> threshold_ok (snd (sm_step op w))"
proof (cases w)
  case (Pair fs s)
  assume "threshold_ok (snd w)"
  then have ok: "threshold_ok s" by (simp add: Pair)
  show ?thesis
  proof (cases op)
    case (OpSetMinFreeSpacePercent p)
    then show ?thesis
      by (simp add: Pair threshold_ok_def setMinFreeSpacePercent_value)
  next
    case (OpSetStoragePath p tree)
    then show ?thesis using ok by (simp add: Pair threshold_ok_def setStoragePath_def)
  next
    case (OpCheckStorageSpace st)
    then show ?thesis using ok by (simp add: Pair threshold_ok_def)
  next
    case OpCleanupOldestDay
    then show ?thesis using ok by (simp add: Pair threshold_ok_def)
  next
    case (OpStartAutoCheck i b a)
    then show ?thesis using ok by (simp add: Pair threshold_ok_def)
  next
    case OpStopAutoCheck
    then show ?thesis using ok by (simp add: Pair threshold_ok_def stopAutoCheck_def)
  next
    case (OpTimerTimeout b a)
    then show ?thesis using ok by (simp add: Pair threshold_ok_def)
  qed
qed

lemma threshold_ok_run: "threshold_ok (snd w) \<Longrightarrow> threshold_ok (snd (sm_run ops w))"
  by (induction ops arbitrary: w) (simp_all add: threshold_ok_step)

text \<open>
  Claim C9.  After \<^verbatim>\<open>setMinFreeSpacePercent(p)\<close> the threshold is \<open>min 100 (max 0 p)\<close>;
  it is 10 after construction; and it lies between 0 and 100 after construction and after
  every sequence of operations.
\<close>

theorem minFreeSpacePercent_clamped:
  "m_minFreeSpacePercent (setMinFreeSpacePercent p s) = min 100 (max 0 p)
   \<and> m_minFreeSpacePercent (StorageManager path) = 10
   \<and> threshold_ok (StorageManager path)
   \<and> threshold_ok (snd (sm_run ops (fs, StorageManager path)))"
proof -
  have i: "threshold_ok (StorageManager path)"
    by (simp add: threshold_ok_def StorageManager_def)
  then have "threshold_ok (snd (fs, StorageManager path))" by simp
  then have "threshold_ok (snd (sm_run ops (fs, StorageManager path)))"
    by (rule threshold_ok_run)
  with i show ?thesis
    by (simp add: setMinFreeSpacePercent_value StorageManager_def)
qed

theorem minFreeSpacePercent_clamped_witness:
  "m_minFreeSpacePercent (setMinFreeSpacePercent 250 (StorageManager ''/mnt/TFcard'')) = 100
   \<and> m_minFreeSpacePercent (setMinFreeSpacePercent (- 3) (StorageManager ''/mnt/TFcard'')) = 0
   \<and> m_minFreeSpacePercent (setMinFreeSpacePercent 42 (StorageManager ''/mnt/TFcard'')) = 42
   \<and> threshold_ok (snd (sm_run [OpSetMinFreeSpacePercent 250, OpStopAutoCheck, OpSetMinFreeSpacePercent (- 3)]
         (\<lparr>fs_entries = [], fs_exists = (\<lambda>_. True), fs_remove = (\<lambda>_. True)\<rparr>,
          StorageManager ''/mnt/TFcard'')))"
  using minFreeSpacePercent_clamped[of 250 "StorageManager ''/mnt/TFcard''" "''/mnt/TFcard''"
          "[OpSetMinFreeSpacePercent 250, OpStopAutoCheck, OpSetMinFreeSpacePercent (- 3)]"
          "\<lparr>fs_entries = [], fs_exists = (\<lambda>_. True), fs_remove = (\<lambda>_. True)\<rparr>"]
        minFreeSpacePercent_clamped[of "- 3" "StorageManager ''/mnt/TFcard''" "''/mnt/TFcard''" "[]"
          "\<lparr>fs_entries = [], fs_exists = (\<lambda>_. True), fs_remove = (\<lambda>_. True)\<rparr>"]
        minFreeSpacePercent_clamped[of 42 "StorageManager ''/mnt/TFcard''" "''/mnt/TFcard''" "[]"
          "\<lparr>fs_entries = [], fs_exists = (\<lambda>_. True), fs_remove = (\<lambda>_. True)\<rparr>"]
  by simp

text \<open>
  Claim C10.  For an interval \<open>\<le> 0\<close>, \<^verbatim>\<open>startAutoCheck\<close> changes nothing: no check, no
  cleanup, no signal, and the timer is as before.  For an interval \<open>> 0\<close> it runs one
  \<^verbatim>\<open>performAutoCheck\<close> cycle and then starts the timer with that interval.
\<close>

theorem startAutoCheck_guard:
  "(interval \<le> 0 \<longrightarrow> startAutoCheck interval before after fs s = (fs, s))
   \<and> (0 < interval \<longrightarrow>
        startAutoCheck interval before after fs s =
          (fst (performAutoCheck before after fs s),
           (snd (performAutoCheck before after fs s))\<lparr>timer_active := True, timer_interval := interval\<rparr>)
        \<and> timer_active (snd (startAutoCheck interval before after fs s))
        \<and> timer_interval (snd (startAutoCheck interval before after fs s)) = interval)"
  by (simp add: startAutoCheck_def split: prod.splits)

theorem startAutoCheck_guard_witness:
  "(0::int) \<le> 0 \<and> 0 < (60000::int)
   \<and> startAutoCheck 0 \<lparr>isValid = False, isReady = False, bytesAvailable = 0, bytesTotal = 0\<rparr>
        \<lparr>isValid = False, isReady = False, bytesAvailable = 0, bytesTotal = 0\<rparr>
        \<lparr>fs_entries = [], fs_exists = (\<lambda>_. True), fs_remove = (\<lambda>_. True)\<rparr>
        (StorageManager ''/mnt/TFcard'')
      = (\<lparr>fs_entries = [], fs_exists = (\<lambda>_. True), fs_remove = (\<lambda>_. True)\<rparr>,
         StorageManager ''/mnt/TFcard'')
   \<and> snd (startAutoCheck 60000 \<lparr>isValid = False, isReady = False, bytesAvailable = 0, bytesTotal = 0\<rparr>
        \<lparr>isValid = False, isReady = False, bytesAvailable = 0, bytesTotal = 0\<rparr>
        \<lparr>fs_entries = [], fs_exists = (\<lambda>_. True), fs_remove = (\<lambda>_. True)\<rparr>
        (StorageManager ''/mnt/TFcard''))
      = (StorageManager ''/mnt/TFcard'')
          \<lparr>timer_active := True, timer_interval := 60000,
           emitted := [LowStorageSpace 0 0 (Double 0 0), CleanupFailed NoDateDirectory]\<rparr>"
  using startAutoCheck_guard[of 0 "\<lparr>isValid = False, isReady = False, bytesAvailable = 0, bytesTotal = 0\<rparr>"
          "\<lparr>isValid = False, isReady = False, bytesAvailable = 0, bytesTotal = 0\<rparr>"
          "\<lparr>fs_entries = [], fs_exists = (\<lambda>_. True), fs_remove = (\<lambda>_. True)\<rparr>"
          "StorageManager ''/mnt/TFcard''"]
        startAutoCheck_guard[of 60000 "\<lparr>isValid = False, isReady = False, bytesAvailable = 0, bytesTotal = 0\<rparr>"
          "\<lparr>isValid = False, isReady = False, bytesAvailable = 0, bytesTotal = 0\<rparr>"
          "\<lparr>fs_entries = [], fs_exists = (\<lambda>_. True), fs_remove = (\<lambda>_. True)\<rparr>"
          "StorageManager ''/mnt/TFcard''"]
  by (simp add: performAutoCheck_def checkStorageSpace_def cleanupOldestDay_def getOldestDateDir_def
      entryList_dirs_def emit_def StorageManager_def is_hidden_def Let_def)

section \<open>Properties of the buffer allocation\<close>

lemma loop_step:
  "init_buffer_loop drv i st =
     (if i < 3 then (case buffer_step drv i st of Inl r \<Rightarrow> r | Inr st' \<Rightarrow> init_buffer_loop drv (Suc i) st')
      else (0, st))"
  by (subst init_buffer_loop.simps)
     (simp add: FRAMEBUFFER_COUNT_def buffer_step_def Let_def split: option.splits prod.splits)

lemma loop_unrolled:
  "init_buffer_loop drv 0 st =
     (case buffer_step drv 0 st of Inl r \<Rightarrow> r | Inr st1 \<Rightarrow>
        (case buffer_step drv 1 st1 of Inl r \<Rightarrow> r | Inr st2 \<Rightarrow>
           (case buffer_step drv 2 st2 of Inl r \<Rightarrow> r | Inr st3 \<Rightarrow> (0, st3))))"
proof -
  have l3: "\<And>s. init_buffer_loop drv (Suc (Suc (Suc 0))) s = (0, s)"
    by (subst loop_step) simp
  have l2: "\<And>s. init_buffer_loop drv (Suc (Suc 0)) s =
      (case buffer_step drv (Suc (Suc 0)) s of Inl r \<Rightarrow> r | Inr st3 \<Rightarrow> (0, st3))"
    by (subst loop_step) (simp add: l3 split: sum.splits)
  have l1: "\<And>s. init_buffer_loop drv (Suc 0) s =
      (case buffer_step drv (Suc 0) s of Inl r \<Rightarrow> r | Inr st2 \<Rightarrow>
           (case buffer_step drv (Suc (Suc 0)) st2 of Inl r \<Rightarrow> r | Inr st3 \<Rightarrow> (0, st3)))"
    by (subst loop_step) (simp add: l2 split: sum.splits)
  have l0: "init_buffer_loop drv 0 st =
     (case buffer_step drv 0 st of Inl r \<Rightarrow> r | Inr st1 \<Rightarrow>
        (case buffer_step drv (Suc 0) st1 of Inl r \<Rightarrow> r | Inr st2 \<Rightarrow>
           (case buffer_step drv (Suc (Suc 0)) st2 of Inl r \<Rightarrow> r | Inr st3 \<Rightarrow> (0, st3))))"
    by (subst loop_step) (simp add: l1 split: sum.splits)
  show ?thesis
    using l0 by (simp only: One_nat_def numeral_2_eq_2)
qed


lemma v4l2_init_buffer_result:
  "fst (v4l2_init_buffer drv st) =
     (if reqbufs drv = None
         \<or> querybuf drv 0 = None \<or> mmap_result drv 0 = None
         \<or> querybuf drv 1 = None \<or> mmap_result drv 1 = None
         \<or> querybuf drv 2 = None \<or> mmap_result drv 2 = None
      then - 1 else 0)"
  by (auto simp add: v4l2_init_buffer_def loop_unrolled buffer_step_def Let_def
      split: option.splits prod.splits)

lemma v4l2_init_buffer_fewer_granted:
  assumes "reqbufs drv = Some n" and "n < FRAMEBUFFER_COUNT" and "\<forall>i\<ge>n. querybuf drv i = None"
  shows "fst (v4l2_init_buffer drv st) = - 1"
proof -
  have "querybuf drv 2 = None" using assms(2,3) by (simp add: FRAMEBUFFER_COUNT_def)
  then show ?thesis by (simp add: v4l2_init_buffer_result)
qed

text \<open>
  Claim C7.  The claim asks that, when the mapping of one buffer fails, the buffers mapped
  before it are unmapped before the error is returned.  The code returns the error but
  releases nothing: when the driver grants three buffers and the second \<^verbatim>\<open>mmap\<close> fails,
  \<^verbatim>\<open>v4l2_init_buffer\<close> returns -1 with the first buffer still mapped; \<^verbatim>\<open>v4l2_init\<close> then
  closes the descriptor, and since \<^verbatim>\<open>v4l2_cleanup\<close> unmaps only while the descriptor is
  open, the mapping stays for good.
\<close>

theorem v4l2_init_buffer_leaks_mapped_buffer:
  "v4l2_init_buffer
     \<lparr>reqbufs = Some 3, querybuf = (\<lambda>i. Some (614400, i * 614400)),
      mmap_result = (\<lambda>i. if i = 1 then None else Some (4096 + i * 614400))\<rparr>
     (initial_v4l2\<lparr>v4l2_fd := 3\<rparr>)
   = (- 1,
      \<lparr>v4l2_fd = 3,
       buf_infos = [\<lparr>start = Addr 4096, buf_length = 614400\<rparr>,
                    \<lparr>start = MapFailed, buf_length = 614400\<rparr>,
                    \<lparr>start = NullPtr, buf_length = 0\<rparr>],
       frm_width = 0, frm_height = 0, is_capturing = False,
       mapped = [(4096, 614400)]\<rparr>)
   \<and> mapped (v4l2_cleanup (snd (v4l2_init_buffers_or_close
        \<lparr>reqbufs = Some 3, querybuf = (\<lambda>i. Some (614400, i * 614400)),
         mmap_result = (\<lambda>i. if i = 1 then None else Some (4096 + i * 614400))\<rparr>
        3 initial_v4l2))) = [(4096, 614400)]"
  by (simp add: v4l2_init_buffers_or_close_def v4l2_cleanup_def v4l2_init_buffer_def loop_unrolled
      buffer_step_def Let_def set_start_def set_length_def initial_v4l2_def FRAMEBUFFER_COUNT_def
      numeral_3_eq_3)

lemma v4l2_init_buffer_success_maps_all:
  "v4l2_init_buffer
     \<lparr>reqbufs = Some 3, querybuf = (\<lambda>i. Some (614400, i * 614400)),
      mmap_result = (\<lambda>i. Some (4096 + i * 614400))\<rparr>
     (initial_v4l2\<lparr>v4l2_fd := 3\<rparr>)
   = (0,
      \<lparr>v4l2_fd = 3,
       buf_infos = [\<lparr>start = Addr 4096, buf_length = 614400\<rparr>,
                    \<lparr>start = Addr 618496, buf_length = 614400\<rparr>,
                    \<lparr>start = Addr 1232896, buf_length = 614400\<rparr>],
       frm_width = 0, frm_height = 0, is_capturing = False,
       mapped = [(4096, 614400), (618496, 614400), (1232896, 614400)]\<rparr>)"
  by (simp add: v4l2_init_buffer_def loop_unrolled
      buffer_step_def Let_def set_start_def set_length_def initial_v4l2_def FRAMEBUFFER_COUNT_def
      numeral_3_eq_3)

section \<open>Properties of the recording pipeline\<close>















text \<open>
  Claim C5.  While recording, \<^verbatim>\<open>startRecording\<close> returns false and leaves every member as
  it was: path, dimensions, counters, clock readings, timer, codec and container state.
\<close>

theorem startRecording_while_recording:
  "m_isRecording s \<Longrightarrow> startRecording filePath width height now outcome s = (False, s)"
  by (simp add: startRecording_def)

text \<open>
  Claim C6.  \<^verbatim>\<open>addFrameToQueue\<close> returns false and changes nothing (no signal either) when
  not recording, when the data pointer is null, or when the size is not positive; otherwise
  it returns true and appends to the queue a frame holding its own copy of the first
  \<open>size\<close> bytes.
\<close>

theorem addFrameToQueue_cases:
  "(\<not> m_isRecording s \<or> frameData = None \<or> sz \<le> 0 \<longrightarrow>
       addFrameToQueue frameData sz s = (False, s))
   \<and> (m_isRecording s \<and> frameData = Some d \<and> 0 < sz \<longrightarrow>
        addFrameToQueue frameData sz s =
          (True, s\<lparr>m_frameQueue := m_frameQueue s @ [\<lparr>frame_data = take (nat sz) d, frame_size = sz\<rparr>]\<rparr>))"
  by (auto simp add: addFrameToQueue_def new_FrameData_def)

theorem startRecording_while_recording_witness:
  "m_isRecording (snd (startRecording ''/mnt/TFcard/20240101/record_103000.mp4'' 640 480 0 None (RecordingThread 0)))
   \<and> startRecording ''/mnt/TFcard/20240101/record_103100.mp4'' 320 240 5 None
        (snd (startRecording ''/mnt/TFcard/20240101/record_103000.mp4'' 640 480 0 None (RecordingThread 0)))
      = (False, snd (startRecording ''/mnt/TFcard/20240101/record_103000.mp4'' 640 480 0 None (RecordingThread 0)))"
proof -
  let ?s = "snd (startRecording ''/mnt/TFcard/20240101/record_103000.mp4'' 640 480 0 None (RecordingThread 0))"
  have r: "m_isRecording ?s"
    by (simp add: startRecording_def initRecorder_def RecordingThread_def start_segment_timer_def Let_def)
  show ?thesis
    using r startRecording_while_recording[OF r, of "''/mnt/TFcard/20240101/record_103100.mp4''" 320 240 5 None]
    by simp
qed

theorem addFrameToQueue_cases_witness:
  "addFrameToQueue (Some [1, 2, 3, 4]) 3 ((RecordingThread 0)\<lparr>m_isRecording := True\<rparr>)
     = (True, (RecordingThread 0)\<lparr>m_isRecording := True,
                m_frameQueue := [\<lparr>frame_data = [1, 2, 3], frame_size = 3\<rparr>]\<rparr>)
   \<and> addFrameToQueue None 3 ((RecordingThread 0)\<lparr>m_isRecording := True\<rparr>)
     = (False, (RecordingThread 0)\<lparr>m_isRecording := True\<rparr>)
   \<and> addFrameToQueue (Some [1, 2, 3, 4]) 0 ((RecordingThread 0)\<lparr>m_isRecording := True\<rparr>)
     = (False, (RecordingThread 0)\<lparr>m_isRecording := True\<rparr>)
   \<and> addFrameToQueue (Some [1, 2, 3, 4]) 3 (RecordingThread 0) = (False, RecordingThread 0)"
  using addFrameToQueue_cases[of "(RecordingThread 0)\<lparr>m_isRecording := True\<rparr>" "Some [1, 2, 3, 4]" 3 "[1, 2, 3, 4]"]
        addFrameToQueue_cases[of "(RecordingThread 0)\<lparr>m_isRecording := True\<rparr>" None 3 "[]"]
        addFrameToQueue_cases[of "(RecordingThread 0)\<lparr>m_isRecording := True\<rparr>" "Some [1, 2, 3, 4]" 0 "[]"]
        addFrameToQueue_cases[of "RecordingThread 0" "Some [1, 2, 3, 4]" 3 "[]"]
  by (simp add: RecordingThread_def)


section \<open>Properties of the recording orchestration\<close>

lemma map_rename_set:
  assumes "old \<in> set xs"
  shows "set (map (\<lambda>p. if p = old then new else p) xs) = insert new (set xs - {old})"
  using assms by auto


lemma dir_nonempty: "dir_absolutePath path = Some dir \<Longrightarrow> path \<noteq> []"
  by (cases path) (simp_all add: dir_absolutePath_def)

lemma example_name:
  "segment_target \<lparr>hour = 10, minute = 30\<rparr> \<lparr>hour = 11, minute = 0\<rparr> dir = dir @ ''/10:30-11:00.mp4''"
  by (simp add: segment_target_def toString_HHmm_def two_digits_def digit_char_def)

lemma stopRecording_result:
  assumes "mp_isRecording mp" and "dir_absolutePath (m_currentVideoFile mp) = Some dir"
  shows "MonitorPage_stopRecording endTime fs mp =
     Some (let target = segment_target (m_recordingStartTime mp) endTime dir;
               mp1 = mp\<lparr>m_videoRecorder := map_option stopRecording (m_videoRecorder mp),
                     m_recordTimer_active := False, ui_recording := False, mp_isRecording := False\<rparr>
           in if target \<notin> set (fs_files fs) \<and> m_currentVideoFile mp \<in> set (fs_files fs)
                 \<and> fs_rename_ok fs (m_currentVideoFile mp) target
              then (fs\<lparr>fs_files := map (\<lambda>p. if p = m_currentVideoFile mp then target else p) (fs_files fs)\<rparr>,
                    mp1\<lparr>m_currentVideoFile := target, saved_messages := saved_messages mp @ [target]\<rparr>)
              else (fs, mp1\<lparr>saved_messages := saved_messages mp @ [m_currentVideoFile mp]\<rparr>))"
proof -
  have ne: "m_currentVideoFile mp \<noteq> []" using assms(2) by (rule dir_nonempty)
  show ?thesis
    unfolding MonitorPage_stopRecording_def Let_def QFile_exists_def QFile_rename_def
    using assms ne by (simp add: segment_target_def)
qed

text \<open>
  The claim C8 read as it stands, "for every finalized segment the working file is renamed",
  fails: here a segment from 10:30 to 11:00 is finalized, no file has the target name, and
  the operating system refuses the renaming.  The call returns normally, the file keeps its
  working name and the page goes on naming it by that name.
\<close>

theorem stopRecording_keeps_name_when_rename_fails:
  "MonitorPage_stopRecording \<lparr>hour = 11, minute = 0\<rparr>
     \<lparr>fs_files = [''/mnt/TFcard/20240101/record_103000.mp4''], fs_rename_ok = (\<lambda>old new. False)\<rparr>
     \<lparr>mp_isRecording = True, m_currentVideoFile = ''/mnt/TFcard/20240101/record_103000.mp4'',
      m_recordingStartTime = \<lparr>hour = 10, minute = 30\<rparr>, m_videoRecorder = None,
      m_recordTimer_active = True, ui_recording = True, saved_messages = []\<rparr>
   = Some (\<lparr>fs_files = [''/mnt/TFcard/20240101/record_103000.mp4''], fs_rename_ok = (\<lambda>old new. False)\<rparr>,
           \<lparr>mp_isRecording = False, m_currentVideoFile = ''/mnt/TFcard/20240101/record_103000.mp4'',
            m_recordingStartTime = \<lparr>hour = 10, minute = 30\<rparr>, m_videoRecorder = None,
            m_recordTimer_active = False, ui_recording = False,
            saved_messages = [''/mnt/TFcard/20240101/record_103000.mp4'']\<rparr>)
   \<and> segment_target \<lparr>hour = 10, minute = 30\<rparr> \<lparr>hour = 11, minute = 0\<rparr> ''/mnt/TFcard/20240101''
       = ''/mnt/TFcard/20240101/10:30-11:00.mp4''
   \<and> \<not> QFile_exists ''/mnt/TFcard/20240101/10:30-11:00.mp4''
         \<lparr>fs_files = [''/mnt/TFcard/20240101/record_103000.mp4''], fs_rename_ok = (\<lambda>old new. False)\<rparr>"
  by (simp add: MonitorPage_stopRecording_def dir_absolutePath_def QFile_exists_def QFile_rename_def
      segment_target_def toString_HHmm_def two_digits_def digit_char_def Let_def)

text \<open>
  Claim C8, amended.  When a segment is finalized (the page is recording and has a working
  file in a directory \<open>dir\<close>), the target name is \<open>dir\<close>, then the start and the end time
  in \<open>HH:mm\<close> format joined by \<open>-\<close>, with the extension \<open>.mp4\<close>; start 10:30 and end
  11:00 give exactly \<open>10:30-11:00.mp4\<close>.  The call always returns normally, recording is
  off afterwards, and the message names the final path.  If the working file exists, no
  file has the target name and the operating system carries out the renaming, then
  afterwards the file is found under the target name and no longer under the working name,
  every other file is as before, and the page names the file by the target name.  If a
  file with the target name exists, nothing is renamed and the working name is kept.  If
  the renaming fails (the working file is missing or the operating system refuses), the
  working name is kept as well, and nothing changes in the file system.
\<close>

theorem stopRecording_renames_segment:
  assumes "mp_isRecording mp" and "dir_absolutePath (m_currentVideoFile mp) = Some dir"
  shows "\<exists>fs' mp'. MonitorPage_stopRecording endTime fs mp = Some (fs', mp')
       \<and> \<not> mp_isRecording mp'
       \<and> saved_messages mp' = saved_messages mp @ [m_currentVideoFile mp']
       \<and> (QFile_exists (m_currentVideoFile mp) fs
            \<and> \<not> QFile_exists (segment_target (m_recordingStartTime mp) endTime dir) fs
            \<and> fs_rename_ok fs (m_currentVideoFile mp) (segment_target (m_recordingStartTime mp) endTime dir)
          \<longrightarrow> m_currentVideoFile mp' = segment_target (m_recordingStartTime mp) endTime dir
              \<and> QFile_exists (segment_target (m_recordingStartTime mp) endTime dir) fs'
              \<and> \<not> QFile_exists (m_currentVideoFile mp) fs'
              \<and> set (fs_files fs') =
                  insert (segment_target (m_recordingStartTime mp) endTime dir)
                    (set (fs_files fs) - {m_currentVideoFile mp}))
       \<and> (QFile_exists (segment_target (m_recordingStartTime mp) endTime dir) fs
          \<longrightarrow> m_currentVideoFile mp' = m_currentVideoFile mp \<and> fs' = fs)
       \<and> (\<not> QFile_exists (m_currentVideoFile mp) fs
            \<or> \<not> fs_rename_ok fs (m_currentVideoFile mp) (segment_target (m_recordingStartTime mp) endTime dir)
          \<longrightarrow> m_currentVideoFile mp' = m_currentVideoFile mp \<and> fs' = fs)
       \<and> segment_target \<lparr>hour = 10, minute = 30\<rparr> \<lparr>hour = 11, minute = 0\<rparr> dir
            = dir @ ''/10:30-11:00.mp4''"
proof -
  let ?t = "segment_target (m_recordingStartTime mp) endTime dir"
  let ?w = "m_currentVideoFile mp"
  let ?mp1 = "mp\<lparr>m_videoRecorder := map_option stopRecording (m_videoRecorder mp),
                 m_recordTimer_active := False, ui_recording := False, mp_isRecording := False\<rparr>"
  note res = stopRecording_result[OF assms, of endTime fs, unfolded Let_def]
  show ?thesis
  proof (cases "?t \<notin> set (fs_files fs) \<and> ?w \<in> set (fs_files fs) \<and> fs_rename_ok fs ?w ?t")
    case True
    let ?fs' = "fs\<lparr>fs_files := map (\<lambda>p. if p = ?w then ?t else p) (fs_files fs)\<rparr>"
    let ?mp' = "?mp1\<lparr>m_currentVideoFile := ?t, saved_messages := saved_messages mp @ [?t]\<rparr>"
    have r: "MonitorPage_stopRecording endTime fs mp = Some (?fs', ?mp')"
      using res True by simp
    have d: "?w \<noteq> ?t" using True by auto
    have st: "set (fs_files ?fs') = insert ?t (set (fs_files fs) - {?w})"
      using True map_rename_set[of ?w "fs_files fs" ?t] by simp
    have "\<not> mp_isRecording ?mp'" "saved_messages ?mp' = saved_messages mp @ [m_currentVideoFile ?mp']"
      "m_currentVideoFile ?mp' = ?t" by simp_all
    moreover have "QFile_exists ?t ?fs'" "\<not> QFile_exists ?w ?fs'"
      unfolding QFile_exists_def st using d by simp_all
    ultimately show ?thesis
      using r st True example_name[of dir] unfolding QFile_exists_def by blast
  next
    case False
    let ?mp' = "?mp1\<lparr>saved_messages := saved_messages mp @ [?w]\<rparr>"
    have r: "MonitorPage_stopRecording endTime fs mp = Some (fs, ?mp')"
      using res False by simp
    have "\<not> mp_isRecording ?mp'" "saved_messages ?mp' = saved_messages mp @ [m_currentVideoFile ?mp']"
      "m_currentVideoFile ?mp' = ?w" by simp_all
    then show ?thesis
      using r False example_name[of dir] unfolding QFile_exists_def by blast
  qed
qed

theorem stopRecording_renames_segment_witness:
  "dir_absolutePath ''/mnt/TFcard/20240101/record_103000.mp4'' = Some ''/mnt/TFcard/20240101''
   \<and> MonitorPage_stopRecording \<lparr>hour = 11, minute = 0\<rparr>
     \<lparr>fs_files = [''/mnt/TFcard/20240101/09:58-10:28.mp4'', ''/mnt/TFcard/20240101/record_103000.mp4''],
      fs_rename_ok = (\<lambda>old new. True)\<rparr>
     \<lparr>mp_isRecording = True, m_currentVideoFile = ''/mnt/TFcard/20240101/record_103000.mp4'',
      m_recordingStartTime = \<lparr>hour = 10, minute = 30\<rparr>, m_videoRecorder = None,
      m_recordTimer_active = True, ui_recording = True, saved_messages = []\<rparr>
   = Some (\<lparr>fs_files = [''/mnt/TFcard/20240101/09:58-10:28.mp4'', ''/mnt/TFcard/20240101/10:30-11:00.mp4''],
            fs_rename_ok = (\<lambda>old new. True)\<rparr>,
           \<lparr>mp_isRecording = False, m_currentVideoFile = ''/mnt/TFcard/20240101/10:30-11:00.mp4'',
            m_recordingStartTime = \<lparr>hour = 10, minute = 30\<rparr>, m_videoRecorder = None,
            m_recordTimer_active = False, ui_recording = False,
            saved_messages = [''/mnt/TFcard/20240101/10:30-11:00.mp4'']\<rparr>)
   \<and> MonitorPage_stopRecording \<lparr>hour = 11, minute = 0\<rparr>
     \<lparr>fs_files = [''/mnt/TFcard/20240101/10:30-11:00.mp4'', ''/mnt/TFcard/20240101/record_103000.mp4''],
      fs_rename_ok = (\<lambda>old new. True)\<rparr>
     \<lparr>mp_isRecording = True, m_currentVideoFile = ''/mnt/TFcard/20240101/record_103000.mp4'',
      m_recordingStartTime = \<lparr>hour = 10, minute = 30\<rparr>, m_videoRecorder = None,
      m_recordTimer_active = True, ui_recording = True, saved_messages = []\<rparr>
   = Some (\<lparr>fs_files = [''/mnt/TFcard/20240101/10:30-11:00.mp4'', ''/mnt/TFcard/20240101/record_103000.mp4''],
            fs_rename_ok = (\<lambda>old new. True)\<rparr>,
           \<lparr>mp_isRecording = False, m_currentVideoFile = ''/mnt/TFcard/20240101/record_103000.mp4'',
            m_recordingStartTime = \<lparr>hour = 10, minute = 30\<rparr>, m_videoRecorder = None,
            m_recordTimer_active = False, ui_recording = False,
            saved_messages = [''/mnt/TFcard/20240101/record_103000.mp4'']\<rparr>)"
proof -
  let ?mp = "\<lparr>mp_isRecording = True, m_currentVideoFile = ''/mnt/TFcard/20240101/record_103000.mp4'',
      m_recordingStartTime = \<lparr>hour = 10, minute = 30\<rparr>, m_videoRecorder = None,
      m_recordTimer_active = True, ui_recording = True, saved_messages = []\<rparr>"
  let ?fs1 = "\<lparr>fs_files = [''/mnt/TFcard/20240101/09:58-10:28.mp4'', ''/mnt/TFcard/20240101/record_103000.mp4''],
      fs_rename_ok = (\<lambda>old new. True)\<rparr>"
  let ?fs2 = "\<lparr>fs_files = [''/mnt/TFcard/20240101/10:30-11:00.mp4'', ''/mnt/TFcard/20240101/record_103000.mp4''],
      fs_rename_ok = (\<lambda>old new. True)\<rparr>"
  let ?E = "\<lparr>hour = 11, minute = 0\<rparr>"
  have r: "mp_isRecording ?mp" by simp
  have d: "dir_absolutePath (m_currentVideoFile ?mp) = Some ''/mnt/TFcard/20240101''"
    by (simp add: dir_absolutePath_def)
  have t: "segment_target (m_recordingStartTime ?mp) ?E ''/mnt/TFcard/20240101''
             = ''/mnt/TFcard/20240101/10:30-11:00.mp4''"
    by (simp add: segment_target_def toString_HHmm_def two_digits_def digit_char_def)
  let ?t = "''/mnt/TFcard/20240101/10:30-11:00.mp4''"
  have p1: "QFile_exists (m_currentVideoFile ?mp) ?fs1" by (simp add: QFile_exists_def)
  have p2: "\<not> QFile_exists ?t ?fs1" by (simp add: QFile_exists_def)
  have p3: "fs_rename_ok ?fs1 (m_currentVideoFile ?mp) ?t" by simp
  have p4: "QFile_exists ?t ?fs2" by (simp add: QFile_exists_def)
  from stopRecording_renames_segment[OF r d, of ?E ?fs1, unfolded t] p1 p2 p3
  obtain fs1 mp1 where s1: "MonitorPage_stopRecording ?E ?fs1 ?mp = Some (fs1, mp1)"
    and c1: "m_currentVideoFile mp1 = ?t"
    and f1: "QFile_exists ?t fs1" "\<not> QFile_exists (m_currentVideoFile ?mp) fs1"
    by blast
  from stopRecording_renames_segment[OF r d, of ?E ?fs2, unfolded t] p4
  obtain fs2 mp2 where s2: "MonitorPage_stopRecording ?E ?fs2 ?mp = Some (fs2, mp2)"
    and c2: "m_currentVideoFile mp2 = m_currentVideoFile ?mp"
    and f2: "fs2 = ?fs2"
    by blast
  have e1: "MonitorPage_stopRecording ?E ?fs1 ?mp
   = Some (\<lparr>fs_files = [''/mnt/TFcard/20240101/09:58-10:28.mp4'', ''/mnt/TFcard/20240101/10:30-11:00.mp4''],
            fs_rename_ok = (\<lambda>old new. True)\<rparr>,
           \<lparr>mp_isRecording = False, m_currentVideoFile = ''/mnt/TFcard/20240101/10:30-11:00.mp4'',
            m_recordingStartTime = \<lparr>hour = 10, minute = 30\<rparr>, m_videoRecorder = None,
            m_recordTimer_active = False, ui_recording = False,
            saved_messages = [''/mnt/TFcard/20240101/10:30-11:00.mp4'']\<rparr>)"
    using stopRecording_result[OF r d, of ?E ?fs1] unfolding t by (simp add: Let_def)
  have e2: "MonitorPage_stopRecording ?E ?fs2 ?mp
   = Some (?fs2,
           \<lparr>mp_isRecording = False, m_currentVideoFile = ''/mnt/TFcard/20240101/record_103000.mp4'',
            m_recordingStartTime = \<lparr>hour = 10, minute = 30\<rparr>, m_videoRecorder = None,
            m_recordTimer_active = False, ui_recording = False,
            saved_messages = [''/mnt/TFcard/20240101/record_103000.mp4'']\<rparr>)"
    using stopRecording_result[OF r d, of ?E ?fs2] unfolding t by (simp add: Let_def)
  have d': "dir_absolutePath ''/mnt/TFcard/20240101/record_103000.mp4'' = Some ''/mnt/TFcard/20240101''"
    using d by simp
  from d' e1 e2 s1 s2 c1 c2 f1 f2 show ?thesis by (intro conjI)
qed

end
